theory Spec2Isabelle
  imports Complex_Main "HOL-Library.Word"
begin

unbundle bit_operations_syntax

section \<open>Python strings\<close>

text \<open>
  Store values, command lines and uuids are ASCII strings. \<open>str.split()\<close> without an
  argument cuts at runs of whitespace and drops the empty pieces; \<open>str.split(',')\<close>
  cuts at every comma and keeps the empty pieces (so \<open>''.split(',')\<close> is \<open>['']\<close>);
  \<open>sep.join(xs)\<close> puts the separator between the elements.
\<close>

definition isspace :: "char \<Rightarrow> bool" where
  "isspace c = (c = CHR '' '' \<or> c = CHR 0x09 \<or> c = CHR 0x0A \<or> c = CHR 0x0B \<or> c = CHR 0x0C
      \<or> c = CHR 0x0D \<or> c = CHR 0x1C \<or> c = CHR 0x1D \<or> c = CHR 0x1E \<or> c = CHR 0x1F)"

fun split_acc :: "(char \<Rightarrow> bool) \<Rightarrow> string \<Rightarrow> string \<Rightarrow> string list" where
  "split_acc p cur [] = [rev cur]"
| "split_acc p cur (c # cs) =
     (if p c then rev cur # split_acc p [] cs else split_acc p (c # cur) cs)"

definition split_on :: "char \<Rightarrow> string \<Rightarrow> string list" where
  "split_on sep s = split_acc (\<lambda>c. c = sep) [] s"

definition split :: "string \<Rightarrow> string list" where
  "split s = filter (\<lambda>t. t \<noteq> []) (split_acc isspace [] s)"

fun join :: "string \<Rightarrow> string list \<Rightarrow> string" where
  "join sep [] = []"
| "join sep [x] = x"
| "join sep (x # y # ys) = x @ sep @ join sep (y # ys)"

text \<open>\<open>'{}'.format(v)\<close> of a value that may be \<open>None\<close>.\<close>

definition fmt :: "string option \<Rightarrow> string" where
  "fmt v = (case v of None \<Rightarrow> ''None'' | Some s \<Rightarrow> s)"

section \<open>Exceptions\<close>

datatype exc =
    AttributeError
  | IndexError
  | KeyError string
  | TypeError
  | ValueError
  | FileNotFoundError string
  | LibvirtError string

section \<open>daemon-common: running external programs (common.py)\<close>

text \<open>
  The operating system as the daemons see it: the programs started so far (argument
  vector and environment, in order), the signals sent to them, which executables
  exist, and the status with which a started program will exit.
\<close>

record os =
  spawned :: "(string list \<times> (string \<times> string) list option) list"
  signalled :: "(string list \<times> string) list"
  can_exec :: "string \<Rightarrow> bool"
  exit_status :: "string list \<Rightarrow> int"
  getenv :: "(string \<times> string) list"

text \<open>
  \<open>subprocess.Popen(command, env=..., stdout=PIPE, stderr=PIPE)\<close> starts the program and
  returns at once: the handle's \<open>returncode\<close> is \<open>None\<close> until \<open>poll\<close>, \<open>wait\<close> or
  \<open>communicate\<close> has seen the child exit. An empty argument vector and a missing
  executable raise.
\<close>

record popen =
  args :: "string list"
  returncode :: "int option"

definition Popen ::
  "string list \<Rightarrow> (string \<times> string) list option \<Rightarrow> os \<Rightarrow> (exc + popen) \<times> os" where
  "Popen command environment w =
     (case command of
        [] \<Rightarrow> (Inl IndexError, w)
      | prog # _ \<Rightarrow>
          if can_exec w prog
          then (Inr \<lparr>args = command, returncode = None\<rparr>,
                w\<lparr>spawned := spawned w @ [(command, environment)]\<rparr>)
          else (Inl (FileNotFoundError prog), w))"

text \<open>\<open>Popen.wait()\<close>: blocks until the child has exited and stores its status.\<close>

definition wait :: "popen \<Rightarrow> os \<Rightarrow> popen" where
  "wait p w = p\<lparr>returncode := Some (exit_status w (args p))\<rparr>"

text \<open>
  \<open>run_os_command(command_string, background=False, environment=None)\<close>. In the
  background the program is started from a thread of its own (an exception there dies
  with the thread) and 0 is returned; in the foreground the handle's \<open>returncode\<close> is
  returned as \<open>Popen\<close> left it. The value returned is a Python \<open>int\<close> or \<open>None\<close>.
\<close>

definition run_os_command ::
  "string \<Rightarrow> bool \<Rightarrow> (string \<times> string) list option \<Rightarrow> os \<Rightarrow> (exc + int option) \<times> os" where
  "run_os_command command_string background environment w =
     (let command = split command_string in
      if background
      then (Inr (Some 0), snd (Popen command environment w))
      else (case Popen command environment w of
              (Inl e, w') \<Rightarrow> (Inl e, w')
            | (Inr command_output, w') \<Rightarrow> (Inr (returncode command_output), w')))"

text \<open>\<open>run_os_daemon\<close> wraps the handle in an \<open>OSDaemon\<close>, which can be sent a signal.\<close>

definition run_os_daemon ::
  "string \<Rightarrow> (string \<times> string) list option \<Rightarrow> os \<Rightarrow> (exc + popen) \<times> os" where
  "run_os_daemon command_string environment w = Popen (split command_string) environment w"

definition signal_map :: "string \<Rightarrow> string option" where
  "signal_map k = (if k = ''hup'' then Some ''SIGHUP''
                   else if k = ''int'' then Some ''SIGINT'' else None)"

definition signal :: "popen \<Rightarrow> string \<Rightarrow> os \<Rightarrow> exc option \<times> os" where
  "signal daemon sent_signal w =
     (case signal_map sent_signal of
        None \<Rightarrow> (Some (KeyError sent_signal), w)
      | Some sig \<Rightarrow> (None, w\<lparr>signalled := signalled w @ [(args daemon, sig)]\<rparr>))"

text \<open>Two hosts that differ only in how \<open>/bin/check\<close> exits: with status 0 and with status 1.\<close>

definition os_exit :: "int \<Rightarrow> os" where
  "os_exit n = \<lparr>spawned = [], signalled = [], can_exec = (\<lambda>_. True),
                exit_status = (\<lambda>_. n), getenv = []\<rparr>"

section \<open>router-daemon: VXNetworkInstance.py\<close>

text \<open>
  The fields of a \<open>VXNetworkInstance\<close> that its methods read, the network state of
  \<open>this_router\<close> (what \<open>getnetworkstate()\<close> returns) and the host it runs on. Fields
  that start as \<open>None\<close> are options.
\<close>

record vxnet =
  vni :: string
  vni_dev :: string
  network_state :: string
  domain :: "string option"
  ip_gateway :: "string option"
  ip_cidrnetmask :: "string option"
  dhcp_flag :: bool
  dhcp_start :: "string option"
  dhcp_end :: "string option"
  vxlan_nic :: string
  bridge_nic :: string
  dnsmasq_hostsdir :: string
  dhcp_server_daemon :: "popen option"
  host :: os

text \<open>A call of \<open>common.run_os_command\<close> whose value is dropped: only an exception matters.\<close>

definition os_call :: "string \<Rightarrow> bool \<Rightarrow> vxnet \<Rightarrow> exc option \<times> vxnet" where
  "os_call command_string background s =
     (case run_os_command command_string background None (host s) of
        (Inl e, w) \<Rightarrow> (Some e, s\<lparr>host := w\<rparr>)
      | (Inr _, w) \<Rightarrow> (None, s\<lparr>host := w\<rparr>))"

definition createGatewayAddress :: "vxnet \<Rightarrow> exc option \<times> vxnet" where
  "createGatewayAddress s =
     (if network_state s = ''primary''
      then (case os_call (''ip address add '' @ fmt (ip_gateway s) @ ''/''
                            @ fmt (ip_cidrnetmask s) @ '' dev '' @ bridge_nic s) False s of
              (Some e, s1) \<Rightarrow> (Some e, s1)
            | (None, s1) \<Rightarrow>
                os_call (''arping -A -c2 -I '' @ bridge_nic s1 @ '' '' @ fmt (ip_gateway s1)) True s1)
      else (None, s))"

definition removeGatewayAddress :: "vxnet \<Rightarrow> exc option \<times> vxnet" where
  "removeGatewayAddress s =
     os_call (''ip address delete '' @ fmt (ip_gateway s) @ ''/''
                @ fmt (ip_cidrnetmask s) @ '' dev '' @ bridge_nic s) False s"

definition dhcp_configuration :: "vxnet \<Rightarrow> string list" where
  "dhcp_configuration s =
     [''--domain-needed'', ''--bogus-priv'', ''--no-resolv'', ''--filterwin2k'',
      ''--expand-hosts'',
      ''--domain='' @ fmt (domain s),
      ''--local=/'' @ fmt (domain s) @ ''/'',
      ''--listen-address='' @ fmt (ip_gateway s),
      ''--bind-interfaces'', ''--leasefile-ro'',
      ''--dhcp-script=/usr/share/pvc/pvcrd/dnsmasq-zookeeper-leases.py'',
      ''--dhcp-range='' @ fmt (dhcp_start s) @ '','' @ fmt (dhcp_end s) @ '',4h'',
      ''--dhcp-lease-max=99'',
      ''--dhcp-hostsdir='' @ dnsmasq_hostsdir s,
      ''--log-facility=DAEMON'', ''--keep-in-foreground'']"

definition startDHCPServer :: "vxnet \<Rightarrow> exc option \<times> vxnet" where
  "startDHCPServer s =
     (if network_state s = ''primary''
      then (case os_call (''/bin/mkdir --parents '' @ dnsmasq_hostsdir s) False s of
              (Some e, s1) \<Rightarrow> (Some e, s1)
            | (None, s1) \<Rightarrow>
                (case map_of (getenv (host s1)) ''PVCRD_CONFIG_FILE'' of
                   None \<Rightarrow> (Some (KeyError ''PVCRD_CONFIG_FILE''), s1)
                 | Some pvcrd_config_file \<Rightarrow>
                     (let dhcp_environment = [(''DNSMASQ_INTERFACE'', bridge_nic s1),
                                              (''PVCRD_CONFIG_FILE'', pvcrd_config_file)]
                      in case run_os_daemon (''/usr/sbin/dnsmasq '' @ join '' '' (dhcp_configuration s1))
                                (Some dhcp_environment) (host s1) of
                           (Inl e, w) \<Rightarrow> (Some e, s1\<lparr>host := w\<rparr>)
                         | (Inr daemon, w) \<Rightarrow>
                             (None, s1\<lparr>host := w, dhcp_server_daemon := Some daemon\<rparr>))))
      else (None, s))"

definition stopDHCPServer :: "vxnet \<Rightarrow> exc option \<times> vxnet" where
  "stopDHCPServer s =
     (case dhcp_server_daemon s of
        None \<Rightarrow> (None, s)
      | Some daemon \<Rightarrow>
          (case signal daemon ''int'' (host s) of (r, w) \<Rightarrow> (r, s\<lparr>host := w\<rparr>)))"

text \<open>
  The data watches on \<open>/networks/<vni>/ip_gateway\<close> and \<open>/networks/<vni>/dhcp_flag\<close>,
  the callers of the methods above in this file. \<open>data\<close> is the new value (\<open>None\<close> when
  there is none); a deletion event ends the watch.
\<close>

definition watch_network_gateway :: "bool \<Rightarrow> string option \<Rightarrow> vxnet \<Rightarrow> exc option \<times> vxnet" where
  "watch_network_gateway deleted data s =
     (if deleted then (None, s)
      else case data of
        None \<Rightarrow> (None, s)
      | Some d \<Rightarrow>
          if d \<noteq> [] \<and> ip_gateway s \<noteq> Some d
          then (let orig_gateway = ip_gateway s;
                    s1 = s\<lparr>ip_gateway := Some d\<rparr>
                in if network_state s1 = ''primary''
                   then (if orig_gateway \<noteq> None \<and> orig_gateway \<noteq> Some []
                         then (case removeGatewayAddress s1 of
                                 (Some e, s2) \<Rightarrow> (Some e, s2)
                               | (None, s2) \<Rightarrow> createGatewayAddress s2)
                         else createGatewayAddress s1)
                   else (None, s1))
          else (None, s))"

definition watch_network_dhcp_status :: "bool \<Rightarrow> string option \<Rightarrow> vxnet \<Rightarrow> exc option \<times> vxnet" where
  "watch_network_dhcp_status deleted data s =
     (if deleted then (None, s)
      else case data of
        None \<Rightarrow> (None, s)
      | Some d \<Rightarrow>
          if d \<noteq> []
          then (let s1 = s\<lparr>dhcp_flag := (d = ''True'')\<rparr>
                in if dhcp_flag s1 \<and> network_state s1 = ''primary'' then startDHCPServer s1
                   else if network_state s1 = ''primary'' then stopDHCPServer s1
                   else (None, s1))
          else (None, s))"

section \<open>NodeInstance.py: flushing a node\<close>

text \<open>
  The coordination store as a map from paths to values. \<open>zk.set\<close> of the first
  supervisor overwrites an existing path and raises on a missing one.
\<close>

type_synonym zk = "string \<rightharpoonup> string"

datatype flush_error = NameError string | CompareTypeError | NoNodeError string

definition zk_set :: "string \<Rightarrow> string \<Rightarrow> zk \<Rightarrow> flush_error + zk" where
  "zk_set path v z = (if path \<in> dom z then Inr (z(path \<mapsto> v)) else Inl (NoNodeError path))"

text \<open>
  The values \<open>flush\<close> compares. \<open>getfreemem()\<close> returns the instance's \<open>memfree\<close>: the
  integer that \<open>conn.getFreeMemory()\<close> gave on the local node, the decoded string of
  the store on a remote one. \<open><\<close> orders numbers by value and strings by code point,
  and raises a \<open>TypeError\<close> between a string and a number.
\<close>

datatype pyval = PyInt int | PyFloat rat | PyStr string

fun py_lt :: "pyval \<Rightarrow> pyval \<Rightarrow> flush_error + bool" where
  "py_lt (PyInt a) (PyInt b) = Inr (a < b)"
| "py_lt (PyInt a) (PyFloat b) = Inr (of_int a < b)"
| "py_lt (PyFloat a) (PyInt b) = Inr (a < of_int b)"
| "py_lt (PyFloat a) (PyFloat b) = Inr (a < b)"
| "py_lt (PyStr a) (PyStr b) = Inr (lexordp (\<lambda>x y. (of_char x :: nat) < of_char y) a b)"
| "py_lt (PyStr a) (PyInt b) = Inl CompareTypeError"
| "py_lt (PyStr a) (PyFloat b) = Inl CompareTypeError"
| "py_lt (PyInt a) (PyStr b) = Inl CompareTypeError"
| "py_lt (PyFloat a) (PyStr b) = Inl CompareTypeError"

text \<open>A peer as \<open>flush\<close> reads it: \<open>getname()\<close> and \<open>getfreemem()\<close>.\<close>

record node_instance =
  name :: string
  memfree :: pyval

text \<open>
  The inner loop of \<open>flush\<close>. \<open>least_mem\<close> starts as \<open>(2^64)/8\<close>, in which \<open>^\<close> is
  Python's exclusive or and \<open>/\<close> its true division; afterwards it holds the free memory
  of the node chosen so far.
\<close>

definition least_mem_init :: pyval where
  "least_mem_init = PyFloat (of_int ((2::int) XOR 64) / 8)"

fun flush_select :: "node_instance list \<Rightarrow> pyval \<Rightarrow> string \<Rightarrow> flush_error + string" where
  "flush_select [] least_mem least_host = Inr least_host"
| "flush_select (n # nodes) least_mem least_host =
     (let node_freemem = memfree n in
      case py_lt node_freemem least_mem of
        Inl e \<Rightarrow> Inl e
      | Inr smaller \<Rightarrow>
          if smaller then flush_select nodes node_freemem (name n)
          else flush_select nodes least_mem least_host)"

text \<open>
  \<open>flush\<close> over the instance's \<open>domainlist\<close>. The inner loop iterates the bare name
  \<open>node_list\<close>, which Python looks up among the globals of the module: \<open>g\<close> is what the
  name is bound to there, \<open>None\<close> when it is unbound, and the lookup of an unbound name
  raises a \<open>NameError\<close>. The lookup comes after the three assignments and before the
  two calls of \<open>zk.set\<close>. The store is returned as the exception left it.
\<close>

fun flush_with :: "node_instance list option \<Rightarrow> string list \<Rightarrow> zk \<Rightarrow> flush_error option \<times> zk" where
  "flush_with g [] z = (None, z)"
| "flush_with g (d # domainlist) z =
     (case g of
        None \<Rightarrow> (Some (NameError ''node_list''), z)
      | Some node_list \<Rightarrow>
          (case flush_select node_list least_mem_init [] of
             Inl e \<Rightarrow> (Some e, z)
           | Inr least_host \<Rightarrow>
               (case zk_set (''/domains/'' @ d @ ''/state'') ''flush'' z of
                  Inl e \<Rightarrow> (Some e, z)
                | Inr z1 \<Rightarrow>
                    (case zk_set (''/domains/'' @ d @ ''/hypervisor'') least_host z1 of
                       Inl e \<Rightarrow> (Some e, z1)
                     | Inr z2 \<Rightarrow> flush_with g domainlist z2))))"

text \<open>
  \<open>NodeInstance.py\<close> binds no global \<open>node_list\<close> (its only binding of that name is the
  attribute \<open>self.node_list\<close>, which \<open>flush\<close> does not read), and no other source file
  sets one in that module.
\<close>

definition module_node_list :: "node_instance list option" where
  "module_node_list = None"

definition flush :: "string list \<Rightarrow> zk \<Rightarrow> flush_error option \<times> zk" where
  "flush domainlist z = flush_with module_node_list domainlist z"

text \<open>
  Two ready peers with 4 GB and 8 GB free, as numbers and as the strings that the
  watches of a remote node store, and a domain that runs on the flushed node.
\<close>

definition flush_peers :: "node_instance list" where
  "flush_peers = [\<lparr>name = ''hv2'', memfree = PyInt 4000000000\<rparr>,
                  \<lparr>name = ''hv3'', memfree = PyInt 8000000000\<rparr>]"

definition flush_peers_remote :: "node_instance list" where
  "flush_peers_remote = [\<lparr>name = ''hv2'', memfree = PyStr ''4000000000''\<rparr>,
                         \<lparr>name = ''hv3'', memfree = PyStr ''8000000000''\<rparr>]"

definition flush_store :: zk where
  "flush_store = [''/domains/d1/state'' \<mapsto> ''start'', ''/domains/d1/hypervisor'' \<mapsto> ''hv1'']"

section \<open>The world of a VM controller\<close>

subsection \<open>zkhandler\<close>

text \<open>
  Modelled from the spec: the \<open>zkhandler\<close> module (\<open>readdata\<close>, \<open>writedata\<close>) is not among
  the sources. The spec gives the store client \<open>read(key) -> bytes|None\<close> and an atomic
  \<open>write({key: value})\<close>: reading a missing key gives \<open>None\<close>, writing sets every listed
  key, creating it when it is missing.
\<close>

definition zk_read :: "zk \<Rightarrow> string \<Rightarrow> string option" where
  "zk_read z key = z key"

definition zk_write :: "(string \<times> string) list \<Rightarrow> zk \<Rightarrow> zk" where
  "zk_write kvs z = fold (\<lambda>(key, v) m. m(key \<mapsto> v)) kvs z"

subsection \<open>The local libvirt daemon\<close>

text \<open>
  The states libvirt reports for a domain. The cluster starts domains with \<open>createXML\<close>,
  so they are transient: libvirt forgets a domain once it is destroyed, has shut off or
  has migrated away, and a call on a handle to a forgotten domain raises.
\<close>

datatype domstate =
    VIR_DOMAIN_NOSTATE
  | VIR_DOMAIN_RUNNING
  | VIR_DOMAIN_BLOCKED
  | VIR_DOMAIN_PAUSED
  | VIR_DOMAIN_SHUTDOWN
  | VIR_DOMAIN_SHUTOFF
  | VIR_DOMAIN_CRASHED
  | VIR_DOMAIN_PMSUSPENDED

text \<open>
  Everything a controller shares with the rest of the cluster: the coordination store,
  the domains of the local libvirt daemon by uuid, and how the calls that depend on
  other machines turn out (whether the local and the destination daemon accept a
  connection, the error with which \<open>createXML\<close> fails if it does, whether a live
  migration goes through).
\<close>

record cluster =
  store :: zk
  hv :: "string \<rightharpoonup> domstate"
  local_open :: bool
  remote_open :: bool
  create_error :: "string option"
  migrate_ok :: bool

text \<open>
  The calls a controller makes to libvirt, in order: connections opened, lookups, and
  the calls on a domain handle.
\<close>

datatype lvcall =
    LvOpen string
  | LvLookupByUUID string
  | LvState string
  | LvShutdown string
  | LvDestroy string
  | LvCreateXML string
  | LvMigrate string string "string option"

text \<open>
  A \<open>VMInstance\<close> with the parts of \<open>this_node\<close> and \<open>config\<close> it uses. \<open>state\<close> and
  \<open>node\<close> cache the store's values (\<open>node\<close> is called \<open>hypervisor\<close> in pvcvd);
  \<open>dom_obj\<close> is \<open>self.dom\<close>, a handle that names the domain by uuid, or \<open>None\<close>;
  \<open>console_log\<close> says whether the console log watcher runs. \<open>writes\<close> and \<open>lvcalls\<close>
  record what this controller wrote to the store and asked of libvirt, \<open>slept\<close> the
  milliseconds it has spent in \<open>time.sleep\<close>.
\<close>

record vm =
  domuuid :: string
  state :: "string option"
  node :: "string option"
  instart :: bool
  inrestart :: bool
  inmigrate :: bool
  inreceive :: bool
  inshutdown :: bool
  instop :: bool
  dom_obj :: "string option"
  this_node :: string
  domain_list :: "string list"
  cluster_domain :: string
  console_log :: bool
  writes :: "(string \<times> string) list"
  lvcalls :: "lvcall list"
  slept :: nat
  world :: cluster

text \<open>
  The rest of the cluster acts while a controller sleeps: \<open>E t\<close> is what the other
  nodes, the clients and the guests have done to the shared world when the controller
  wakes up at \<open>t\<close> milliseconds of sleep.
\<close>

type_synonym env = "nat \<Rightarrow> cluster \<Rightarrow> cluster"

definition sleep :: "env \<Rightarrow> nat \<Rightarrow> vm \<Rightarrow> vm" where
  "sleep E ms s = s\<lparr>slept := slept s + ms, world := E (slept s + ms) (world s)\<rparr>"

definition readdata :: "string \<Rightarrow> vm \<Rightarrow> string option" where
  "readdata key s = zk_read (store (world s)) key"

definition writedata :: "(string \<times> string) list \<Rightarrow> vm \<Rightarrow> vm" where
  "writedata kvs s =
     s\<lparr>writes := writes s @ kvs, world := (world s)\<lparr>store := zk_write kvs (store (world s))\<rparr>\<rparr>"

definition state_key :: "vm \<Rightarrow> string" where
  "state_key s = ''/domains/'' @ domuuid s @ ''/state''"

definition node_key :: "vm \<Rightarrow> string" where
  "node_key s = ''/domains/'' @ domuuid s @ ''/node''"

definition hypervisor_key :: "vm \<Rightarrow> string" where
  "hypervisor_key s = ''/domains/'' @ domuuid s @ ''/hypervisor''"

definition failedreason_key :: "vm \<Rightarrow> string" where
  "failedreason_key s = ''/domains/'' @ domuuid s @ ''/failedreason''"

definition xml_key :: "vm \<Rightarrow> string" where
  "xml_key s = ''/domains/'' @ domuuid s @ ''/xml''"

definition runningdomains_key :: "vm \<Rightarrow> string" where
  "runningdomains_key s = ''/nodes/'' @ this_node s @ ''/runningdomains''"

definition lv_log :: "lvcall \<Rightarrow> vm \<Rightarrow> vm" where
  "lv_log c s = s\<lparr>lvcalls := lvcalls s @ [c]\<rparr>"

definition set_hv :: "(string \<rightharpoonup> domstate) \<Rightarrow> vm \<Rightarrow> vm" where
  "set_hv h s = s\<lparr>world := (world s)\<lparr>hv := h\<rparr>\<rparr>"

text \<open>
  The calls on \<open>self.dom\<close>. On \<open>None\<close> the attribute access raises \<open>AttributeError\<close>
  before libvirt is asked anything. \<open>state()\<close> reports the domain's state; \<open>shutdown()\<close>
  asks the guest to halt and returns (the guest halts later, if it does); \<open>destroy()\<close>
  ends the domain at once. Each raises \<open>libvirtError\<close> on a domain that libvirt does
  not know or that is shut off.
\<close>

definition dom_state :: "vm \<Rightarrow> (exc + domstate) \<times> vm" where
  "dom_state s =
     (case dom_obj s of
        None \<Rightarrow> (Inl AttributeError, s)
      | Some h \<Rightarrow>
          (case hv (world s) h of
             None \<Rightarrow> (Inl (LibvirtError ''Domain not found''), lv_log (LvState h) s)
           | Some st \<Rightarrow> (Inr st, lv_log (LvState h) s)))"

definition active :: "vm \<Rightarrow> string \<Rightarrow> bool" where
  "active s h = (case hv (world s) h of None \<Rightarrow> False | Some st \<Rightarrow> st \<noteq> VIR_DOMAIN_SHUTOFF)"

definition dom_shutdown :: "vm \<Rightarrow> exc option \<times> vm" where
  "dom_shutdown s =
     (case dom_obj s of
        None \<Rightarrow> (Some AttributeError, s)
      | Some h \<Rightarrow>
          if active s h then (None, lv_log (LvShutdown h) s)
          else (Some (LibvirtError ''Domain is not running''), lv_log (LvShutdown h) s))"

definition dom_destroy :: "vm \<Rightarrow> exc option \<times> vm" where
  "dom_destroy s =
     (case dom_obj s of
        None \<Rightarrow> (Some AttributeError, s)
      | Some h \<Rightarrow>
          if active s h
          then (None, set_hv ((hv (world s))(h := None)) (lv_log (LvDestroy h) s))
          else (Some (LibvirtError ''Domain is not running''), lv_log (LvDestroy h) s))"

text \<open>How a method ends: it returns, an exception leaves it, or the model ran out of fuel.\<close>

datatype outcome = Returned | Raised exc | NoFuel

definition then_do :: "outcome \<times> vm \<Rightarrow> (vm \<Rightarrow> outcome \<times> vm) \<Rightarrow> outcome \<times> vm" where
  "then_do r f = (case r of (Returned, s) \<Rightarrow> f s | (oc, s) \<Rightarrow> (oc, s))"

text \<open>\<open>try: ... self.dom.state()[0] except: ...\<close>: the state, or \<open>None\<close> when the call raised.\<close>

definition try_dom_state :: "vm \<Rightarrow> domstate option \<times> vm" where
  "try_dom_state s = (case dom_state s of (Inl e, t) \<Rightarrow> (None, t) | (Inr st, t) \<Rightarrow> (Some st, t))"

subsection \<open>The node's list of running domains\<close>

definition addDomainToList :: "vm \<Rightarrow> vm" where
  "addDomainToList s =
     (if domuuid s \<notin> set (domain_list s)
      then (let s1 = s\<lparr>domain_list := domain_list s @ [domuuid s]\<rparr>
            in writedata [(runningdomains_key s1, join '' '' (domain_list s1))] s1)
      else s)"

definition removeDomainFromList :: "vm \<Rightarrow> vm" where
  "removeDomainFromList s =
     (if domuuid s \<in> set (domain_list s)
      then (let s1 = s\<lparr>domain_list := remove1 (domuuid s) (domain_list s)\<rparr>
            in writedata [(runningdomains_key s1, join '' '' (domain_list s1))] s1)
      else s)"

section \<open>node-daemon: VMInstance.py (pvcnoded)\<close>

text \<open>
  The methods of the node daemon's \<open>VMInstance\<close>, statement by statement; log output is
  left out. The uuid is one of the children of \<open>/domains\<close>, a well-formed uuid.
\<close>

definition local_uri :: string where
  "local_uri = ''qemu:///system''"

definition lookupByUUID :: "vm \<Rightarrow> string option \<times> vm" where
  "lookupByUUID s =
     (if node s \<noteq> Some (this_node s) then (None, s)
      else (let s1 = lv_log (LvOpen local_uri) s in
            if \<not> local_open (world s1) then (None, s1)
            else (let s2 = lv_log (LvLookupByUUID (domuuid s1)) s1 in
                  (if domuuid s2 \<in> dom (hv (world s2)) then Some (domuuid s2) else None, s2))))"

text \<open>
  \<open>start_vm\<close>. \<open>createXML\<close> of a missing XML value (\<open>None\<close>) raises a \<open>TypeError\<close>, which
  the handler for \<open>libvirtError\<close> does not catch.
\<close>

definition start_vm :: "vm \<Rightarrow> outcome \<times> vm" where
  "start_vm s0 =
     (let s1 = s0\<lparr>console_log := True, instart := True\<rparr>;
          s2 = lv_log (LvOpen local_uri) s1
      in if \<not> local_open (world s2) then (Returned, s2\<lparr>instart := False\<rparr>)
         else (let (d, s3) = lookupByUUID s2;
                   (curstate, s5) = try_dom_state (s3\<lparr>dom_obj := d\<rparr>)
               in if curstate = Some VIR_DOMAIN_RUNNING
                  then (let s6 = addDomainToList s5;
                            s7 = writedata [(failedreason_key s6, [])] s6
                        in (Returned, s7\<lparr>instart := False\<rparr>))
                  else (case readdata (xml_key s5) s5 of
                          None \<Rightarrow> (Raised TypeError, s5)
                        | Some xmlconfig \<Rightarrow>
                            (let s6 = lv_log (LvCreateXML xmlconfig) s5 in
                             case create_error (world s6) of
                               None \<Rightarrow>
                                 (let s7 = set_hv ((hv (world s6))(domuuid s6 \<mapsto> VIR_DOMAIN_RUNNING)) s6;
                                      s8 = addDomainToList s7;
                                      s9 = s8\<lparr>dom_obj := Some (domuuid s8)\<rparr>;
                                      s10 = writedata [(failedreason_key s9, [])] s9
                                  in (Returned, s10\<lparr>instart := False\<rparr>))
                             | Some e \<Rightarrow>
                                 (let s7 = writedata [(state_key s6, ''fail'')] s6;
                                      s8 = writedata [(failedreason_key s7, e)] s7;
                                      s9 = s8\<lparr>dom_obj := None\<rparr>
                                  in (Returned, s9\<lparr>instart := False\<rparr>))))))"

text \<open>\<open>terminate_vm\<close> and \<open>stop_vm\<close> catch the \<open>AttributeError\<close> of a missing handle only.\<close>

definition terminate_vm :: "vm \<Rightarrow> outcome \<times> vm" where
  "terminate_vm s0 =
     (let s1 = s0\<lparr>instop := True\<rparr>;
          (r, s2) = dom_destroy s1
      in if r = None \<or> r = Some AttributeError
         then (let s3 = removeDomainFromList s2;
                   s4 = s3\<lparr>dom_obj := None, instop := False\<rparr>
               in (Returned, s4\<lparr>console_log := False\<rparr>))
         else (Raised (the r), s2))"

definition stop_vm :: "vm \<Rightarrow> outcome \<times> vm" where
  "stop_vm s0 =
     (let s1 = s0\<lparr>instop := True\<rparr>;
          (r, s2) = dom_destroy s1
      in if r = None \<or> r = Some AttributeError
         then (let s3 = removeDomainFromList s2;
                   s4 = (if inrestart s3 = False
                         then writedata [(state_key s3, ''stop'')] s3 else s3);
                   s5 = s4\<lparr>dom_obj := None, instop := False\<rparr>
               in (Returned, s5\<lparr>console_log := False\<rparr>))
         else (Raised (the r), s2))"

text \<open>
  The loop of \<open>shutdown_vm\<close>, entered with the ticks counted so far; it returns
  \<open>is_aborted\<close>. Every round sleeps two seconds and the loop ends at the latest when
  \<open>tick\<close> has reached 90.
\<close>

function shutdown_wait :: "env \<Rightarrow> nat \<Rightarrow> vm \<Rightarrow> bool \<times> vm" where
  "shutdown_wait E tick0 s0 =
     (let tick = tick0 + 2;
          s1 = sleep E 2000 s0;
          current_state = readdata (state_key s1) s1
      in if current_state \<noteq> Some ''shutdown'' \<and> current_state \<noteq> Some ''restart''
         then (True, s1)
         else (let (lvdomstate, s2) = try_dom_state s1
               in if lvdomstate \<noteq> Some VIR_DOMAIN_RUNNING
                  then (let s3 = removeDomainFromList s2;
                            s4 = writedata [(state_key s3, ''stop'')] s3
                        in (False, s4\<lparr>dom_obj := None, console_log := False\<rparr>))
                  else if tick \<ge> 90
                  then (False, writedata [(state_key s2, ''stop'')] s2)
                  else shutdown_wait E tick s2))"
  by pat_completeness auto
termination
  by (relation "measure (\<lambda>(E, tick0, s0). 90 - tick0)") auto

declare shutdown_wait.simps [simp del]

text \<open>
  \<open>shutdown_vm\<close>; \<open>k\<close> stands for the call of \<open>self.manage_vm_state()\<close> that follows an
  aborted shutdown.
\<close>

definition shutdown_vm :: "(vm \<Rightarrow> outcome \<times> vm) \<Rightarrow> env \<Rightarrow> vm \<Rightarrow> outcome \<times> vm" where
  "shutdown_vm k E s0 =
     (let s1 = s0\<lparr>inshutdown := True\<rparr> in
      case dom_shutdown s1 of
        (Some e, s2) \<Rightarrow> (Raised e, s2)
      | (None, s2) \<Rightarrow>
          (let (is_aborted, s3) = shutdown_wait E 0 s2;
               s4 = s3\<lparr>inshutdown := False\<rparr>
           in then_do (if is_aborted then k s4 else (Returned, s4))
                (\<lambda>s5. if inrestart s5
                       then (Returned, writedata [(state_key s5, ''start'')] (sleep E 1000 s5))
                       else (Returned, s5))))"

definition restart_vm :: "(vm \<Rightarrow> outcome \<times> vm) \<Rightarrow> env \<Rightarrow> vm \<Rightarrow> outcome \<times> vm" where
  "restart_vm k E s0 =
     (let s1 = s0\<lparr>inrestart := True\<rparr>;
          s2 = lv_log (LvOpen local_uri) s1
      in if \<not> local_open (world s2) then (Returned, s2\<lparr>inrestart := False\<rparr>)
         else then_do (shutdown_vm k E s2)
                (\<lambda>s3. then_do (start_vm (sleep E 200 s3))
                   (\<lambda>s4. (let s5 = addDomainToList s4;
                               s6 = writedata [(state_key s5, ''start'')] s5
                           in (Returned, s6\<lparr>inrestart := False\<rparr>)))))"

text \<open>
  \<open>live_migrate_vm\<close>: every failure (no connection to the destination, no handle, the
  migration itself) is caught and gives \<open>False\<close>. A domain that has migrated is gone
  from the local libvirt daemon.
\<close>

definition live_migrate_vm :: "vm \<Rightarrow> bool \<times> vm" where
  "live_migrate_vm s0 =
     (let dest_lv = ''qemu+tcp://'' @ fmt (node s0) @ ''.'' @ cluster_domain s0 @ ''/system'';
          dest_tcp = ''tcp://'' @ fmt (node s0) @ ''.'' @ cluster_domain s0;
          s1 = lv_log (LvOpen dest_lv) s0
      in if \<not> remote_open (world s1) then (False, s1)
         else (case dom_obj s1 of
                 None \<Rightarrow> (False, s1)
               | Some h \<Rightarrow>
                   (let s2 = lv_log (LvMigrate h dest_lv (Some dest_tcp)) s1 in
                    if migrate_ok (world s2) \<and> active s2 h
                    then (True, set_hv ((hv (world s2))(h := None)) s2)
                    else (False, s2))))"

definition migrate_vm :: "vm \<Rightarrow> outcome \<times> vm" where
  "migrate_vm s0 =
     (let s1 = s0\<lparr>inmigrate := True\<rparr>;
          (migrate_ret, s2) = live_migrate_vm s1;
          s3 = (if \<not> migrate_ret
                then writedata [(state_key s2, ''shutdown'')] s2
                else (removeDomainFromList s2)\<lparr>console_log := False\<rparr>)
      in (Returned, s3\<lparr>inmigrate := False\<rparr>))"

text \<open>
  The first loop of \<open>receive_migrate\<close>, entered with the ticks counted so far. It
  returns \<open>live_receive\<close>, or the exception of a state query on a handle that libvirt
  gave a moment before.
\<close>

function receive_wait :: "env \<Rightarrow> nat \<Rightarrow> vm \<Rightarrow> (exc + bool) \<times> vm" where
  "receive_wait E tick0 s0 =
     (let s1 = sleep E 1000 s0;
          tick = tick0 + 1;
          s2 = s1\<lparr>state := readdata (state_key s1) s1\<rparr>;
          (d, s3) = lookupByUUID s2;
          s4 = s3\<lparr>dom_obj := d\<rparr>
      in if d \<noteq> None
         then (case dom_state s4 of
                 (Inl e, s5) \<Rightarrow> (Inl e, s5)
               | (Inr lvdomstate, s5) \<Rightarrow>
                   if lvdomstate = VIR_DOMAIN_RUNNING
                   then (let s6 = addDomainToList s5
                         in (Inr True, writedata [(state_key s6, ''start'')] s6))
                   else if state s5 \<noteq> Some ''migrate'' then (Inr True, s5)
                   else if tick > 90 then (Inr True, writedata [(state_key s5, ''fail'')] s5)
                   else receive_wait E tick s5)
         else if state s4 = Some ''shutdown'' \<or> state s4 = Some ''stop'' then (Inr False, s4)
         else if tick > 90 then (Inr True, writedata [(state_key s4, ''fail'')] s4)
         else receive_wait E tick s4)"
  by pat_completeness auto
termination
  by (relation "measure (\<lambda>(E, tick0, s0). 91 - tick0)") auto

declare receive_wait.simps [simp del]

text \<open>The second loop, which waits for the sender to have shut the domain down.\<close>

function receive_shutdown_wait :: "env \<Rightarrow> nat \<Rightarrow> vm \<Rightarrow> vm" where
  "receive_shutdown_wait E tick0 s0 =
     (let s1 = sleep E 1000 s0;
          tick = tick0 + 1;
          s2 = s1\<lparr>state := readdata (state_key s1) s1\<rparr>
      in if state s2 = Some ''stop''
         then writedata [(state_key s2, ''start'')] (sleep E 1000 s2)
         else if tick > 120
         then writedata [(state_key s2, ''fail''),
                         (failedreason_key s2, ''Timeout waiting for migrate or shutdown'')] s2
         else receive_shutdown_wait E tick s2)"
  by pat_completeness auto
termination
  by (relation "measure (\<lambda>(E, tick0, s0). 121 - tick0)") auto

declare receive_shutdown_wait.simps [simp del]

definition receive_migrate :: "env \<Rightarrow> vm \<Rightarrow> outcome \<times> vm" where
  "receive_migrate E s0 =
     (let s1 = s0\<lparr>inreceive := True\<rparr> in
      case receive_wait E 0 s1 of
        (Inl e, s2) \<Rightarrow> (Raised e, s2)
      | (Inr live_receive, s2) \<Rightarrow>
          (let s3 = (if \<not> live_receive then receive_shutdown_wait E 0 s2 else s2)
           in (Returned, s3\<lparr>inreceive := False\<rparr>)))"

text \<open>
  \<open>manage_vm_state\<close>, with \<open>k\<close> for the nested call that an aborted shutdown makes.
  First what stands under "conditional pass one": the second and third pass, for
  the libvirt state \<open>running\<close> found before.
\<close>

definition manage_vm_state_pass2 ::
  "(vm \<Rightarrow> outcome \<times> vm) \<Rightarrow> env \<Rightarrow> domstate \<Rightarrow> vm \<Rightarrow> outcome \<times> vm" where
  "manage_vm_state_pass2 k E running s2 =
     (if node s2 = Some (this_node s2)
      then (if running = VIR_DOMAIN_RUNNING
            then (if state s2 = Some ''start''
                  then (Returned, addDomainToList (s2\<lparr>console_log := True\<rparr>))
                  else if state s2 = Some ''migrate''
                  then (let s3 = s2\<lparr>console_log := True\<rparr>;
                            s4 = writedata [(state_key s3, ''start'')] s3
                        in (Returned, addDomainToList s4))
                  else if state s2 = Some ''restart'' then restart_vm k E s2
                  else if state s2 = Some ''shutdown'' then shutdown_vm k E s2
                  else if state s2 = Some ''stop'' then stop_vm s2
                  else (Returned, s2))
            else then_do
                   (if state s2 = Some ''start'' then start_vm s2
                    else if state s2 = Some ''migrate'' then receive_migrate E s2
                    else (Returned, s2))
                   (\<lambda>s3. if state s3 = Some ''restart''
                          then (Returned, writedata [(state_key s3, ''start'')] s3)
                          else if state s3 = Some ''shutdown''
                          then (Returned, (removeDomainFromList s3)\<lparr>console_log := False\<rparr>)
                          else if state s3 = Some ''stop''
                          then (Returned, (removeDomainFromList s3)\<lparr>console_log := False\<rparr>)
                          else (Returned, s3)))
      else (if running = VIR_DOMAIN_RUNNING
            then (if state s2 = Some ''migrate'' then migrate_vm s2
                  else if state s2 = Some ''shutdown'' then shutdown_vm k E s2
                  else terminate_vm s2)
            else (Returned, s2)))"

text \<open>
  The whole method: the values are read and the domain's state is asked before the
  flags are looked at.
\<close>

definition manage_vm_state_body :: "(vm \<Rightarrow> outcome \<times> vm) \<Rightarrow> env \<Rightarrow> vm \<Rightarrow> outcome \<times> vm" where
  "manage_vm_state_body k E s0 =
     (let s1 = s0\<lparr>state := readdata (state_key s0) s0, node := readdata (node_key s0) s0\<rparr>;
          (r, s2) = try_dom_state s1;
          running = (case r of None \<Rightarrow> VIR_DOMAIN_NOSTATE | Some st \<Rightarrow> st)
      in if instart s2 = False \<and> inrestart s2 = False \<and> inmigrate s2 = False
            \<and> inreceive s2 = False \<and> inshutdown s2 = False \<and> instop s2 = False
         then manage_vm_state_pass2 k E running s2
         else (Returned, s2))"

text \<open>
  The nesting is tied with fuel: \<open>manage_vm_state n\<close> may nest \<open>n\<close> calls deep.
\<close>

fun manage_vm_state :: "nat \<Rightarrow> env \<Rightarrow> vm \<Rightarrow> outcome \<times> vm" where
  "manage_vm_state 0 E s = (NoFuel, s)"
| "manage_vm_state (Suc n) E s = manage_vm_state_body (manage_vm_state n E) E s"

section \<open>virtualization-daemon: VMInstance.py (pvcvd)\<close>

text \<open>
  The older daemon's \<open>VMInstance\<close>. Its methods carry the prefix \<open>vd\<close> here; they share
  \<open>addDomainToList\<close> and \<open>removeDomainFromList\<close>, which read the same in both files.
  \<open>node\<close> is its field \<open>hypervisor\<close>, \<open>this_node\<close> its \<open>thishypervisor.name\<close>; it has no
  console log watcher.
\<close>

definition vd_lookupByUUID :: "vm \<Rightarrow> string option \<times> vm" where
  "vd_lookupByUUID s =
     (let s1 = lv_log (LvOpen local_uri) s in
      if \<not> local_open (world s1) then (None, s1)
      else (let s2 = lv_log (LvLookupByUUID (domuuid s1)) s1 in
            (if domuuid s2 \<in> dom (hv (world s2)) then Some (domuuid s2) else None, s2)))"

definition vd_start_vm :: "vm \<Rightarrow> outcome \<times> vm" where
  "vd_start_vm s0 =
     (let s1 = s0\<lparr>instart := True\<rparr>;
          s2 = lv_log (LvOpen local_uri) s1
      in if \<not> local_open (world s2) then (Returned, s2\<lparr>instart := False\<rparr>)
         else (let (d, s3) = vd_lookupByUUID s2;
                   (curstate, s5) = try_dom_state (s3\<lparr>dom_obj := d\<rparr>)
               in if curstate = Some VIR_DOMAIN_RUNNING
                  then (let s6 = addDomainToList s5;
                            s7 = writedata [(failedreason_key s6, [])] s6
                        in (Returned, s7\<lparr>instart := False\<rparr>))
                  else (case readdata (xml_key s5) s5 of
                          None \<Rightarrow> (Raised TypeError, s5)
                        | Some xmlconfig \<Rightarrow>
                            (let s6 = lv_log (LvCreateXML xmlconfig) s5 in
                             case create_error (world s6) of
                               None \<Rightarrow>
                                 (let s7 = set_hv ((hv (world s6))(domuuid s6 \<mapsto> VIR_DOMAIN_RUNNING)) s6;
                                      s8 = addDomainToList s7;
                                      s9 = s8\<lparr>dom_obj := Some (domuuid s8)\<rparr>;
                                      s10 = writedata [(failedreason_key s9, [])] s9
                                  in (Returned, s10\<lparr>instart := False\<rparr>))
                             | Some e \<Rightarrow>
                                 (let s7 = writedata [(state_key s6, ''failed'')] s6;
                                      s8 = writedata [(failedreason_key s7, e)] s7;
                                      s9 = s8\<lparr>dom_obj := None\<rparr>
                                  in (Returned, s9\<lparr>instart := False\<rparr>))))))"

definition vd_terminate_vm :: "vm \<Rightarrow> outcome \<times> vm" where
  "vd_terminate_vm s0 =
     (let s1 = s0\<lparr>instop := True\<rparr>;
          (r, s2) = dom_destroy s1
      in if r = None \<or> r = Some AttributeError
         then (let s3 = removeDomainFromList s2
               in (Returned, s3\<lparr>dom_obj := None, instop := False\<rparr>))
         else (Raised (the r), s2))"

definition vd_stop_vm :: "vm \<Rightarrow> outcome \<times> vm" where
  "vd_stop_vm s0 =
     (let s1 = s0\<lparr>instop := True\<rparr>;
          (r, s2) = dom_destroy s1
      in if r = None \<or> r = Some AttributeError
         then (let s3 = removeDomainFromList s2;
                   s4 = (if inrestart s3 = False
                         then writedata [(state_key s3, ''stop'')] s3 else s3)
               in (Returned, s4\<lparr>dom_obj := None, instop := False\<rparr>))
         else (Raised (the r), s2))"

text \<open>
  The loop of \<open>shutdown_vm\<close>: while the domain runs and fewer than 60 ticks have
  passed, count a tick and sleep half a second. It returns the tick count, or the
  exception of the state query.
\<close>

function vd_shutdown_wait :: "env \<Rightarrow> nat \<Rightarrow> vm \<Rightarrow> (exc + nat) \<times> vm" where
  "vd_shutdown_wait E tick s0 =
     (case dom_state s0 of
        (Inl e, s1) \<Rightarrow> (Inl e, s1)
      | (Inr st, s1) \<Rightarrow>
          if st = VIR_DOMAIN_RUNNING \<and> tick < 60
          then vd_shutdown_wait E (tick + 1) (sleep E 500 s1)
          else (Inr tick, s1))"
  by pat_completeness auto
termination
  by (relation "measure (\<lambda>(E, tick, s0). 60 - tick)") auto

declare vd_shutdown_wait.simps [simp del]

text \<open>What follows the \<open>try\<close> block of \<open>shutdown_vm\<close>.\<close>

definition vd_shutdown_done :: "vm \<Rightarrow> outcome \<times> vm" where
  "vd_shutdown_done s =
     (let s1 = removeDomainFromList s;
          s2 = (if inrestart s1 = False
                then writedata [(state_key s1, ''stop'')] s1 else s1)
      in (Returned, s2\<lparr>dom_obj := None, inshutdown := False\<rparr>))"

text \<open>
  \<open>shutdown_vm\<close>. The request to shut down stands before the \<open>try\<close>; inside it are the
  loop and, after 60 ticks, \<open>stop_vm\<close> and the early return; \<open>except: pass\<close> sends every
  exception raised inside on to the statements after the block.
\<close>

definition vd_shutdown_vm :: "env \<Rightarrow> vm \<Rightarrow> outcome \<times> vm" where
  "vd_shutdown_vm E s0 =
     (let s1 = s0\<lparr>inshutdown := True\<rparr> in
      case dom_shutdown s1 of
        (Some e, s2) \<Rightarrow> (Raised e, s2)
      | (None, s2) \<Rightarrow>
          (case vd_shutdown_wait E 0 s2 of
             (Inl e, s3) \<Rightarrow> vd_shutdown_done s3
           | (Inr tick, s3) \<Rightarrow>
               if tick \<ge> 60
               then (case vd_stop_vm s3 of
                       (Returned, s4) \<Rightarrow> (Returned, s4\<lparr>inshutdown := False\<rparr>)
                     | (oc, s4) \<Rightarrow> vd_shutdown_done s4)
               else vd_shutdown_done s3))"

definition vd_restart_vm :: "env \<Rightarrow> vm \<Rightarrow> outcome \<times> vm" where
  "vd_restart_vm E s0 =
     (let s1 = s0\<lparr>inrestart := True\<rparr>;
          s2 = lv_log (LvOpen local_uri) s1
      in if \<not> local_open (world s2) then (Returned, s2\<lparr>inrestart := False\<rparr>)
         else then_do (vd_shutdown_vm E s2)
                (\<lambda>s3. then_do (vd_start_vm s3)
                   (\<lambda>s4. (let s5 = addDomainToList s4;
                               s6 = writedata [(state_key s5, ''start'')] s5
                           in (Returned, s6\<lparr>inrestart := False\<rparr>)))))"

text \<open>\<open>live_migrate_vm\<close> returns 1 on every failure and 0 on success.\<close>

definition vd_live_migrate_vm :: "vm \<Rightarrow> int \<times> vm" where
  "vd_live_migrate_vm s0 =
     (let dest_lv = ''qemu+tcp://'' @ fmt (node s0) @ ''/system'';
          s1 = lv_log (LvOpen dest_lv) s0
      in if \<not> remote_open (world s1) then (1, s1)
         else (case dom_obj s1 of
                 None \<Rightarrow> (1, s1)
               | Some h \<Rightarrow>
                   (let s2 = lv_log (LvMigrate h dest_lv None) s1 in
                    if migrate_ok (world s2) \<and> active s2 h
                    then (0, set_hv ((hv (world s2))(h := None)) s2)
                    else (1, s2))))"

definition vd_migrate_vm :: "env \<Rightarrow> vm \<Rightarrow> outcome \<times> vm" where
  "vd_migrate_vm E s0 =
     (let s1 = s0\<lparr>inmigrate := True\<rparr>;
          (migrate_ret, s2) = vd_live_migrate_vm s1
      in then_do (if migrate_ret \<noteq> 0
                  then then_do (vd_shutdown_vm E s2) (\<lambda>s3. (Returned, sleep E 1000 s3))
                  else (Returned, sleep E 1000 (removeDomainFromList s2)))
           (\<lambda>s4. (let s5 = writedata [(state_key s4, ''start'')] s4
                   in (Returned, s5\<lparr>inmigrate := False\<rparr>))))"

text \<open>
  One round of the loop of \<open>receive_migrate\<close>: whether the loop goes on, and the
  controller after the round. The loop has no bound of its own, so it is a partial
  function: \<open>None\<close> is a loop that never ends.
\<close>

definition vd_receive_round :: "env \<Rightarrow> vm \<Rightarrow> bool \<times> vm" where
  "vd_receive_round E s0 =
     (let s1 = sleep E 500 s0;
          s2 = s1\<lparr>state := readdata (state_key s1) s1\<rparr>;
          (d, s3) = vd_lookupByUUID s2;
          s4 = s3\<lparr>dom_obj := d\<rparr>
      in if d = None \<and> state s4 = Some ''migrate'' then (True, s4)
         else if state s4 \<noteq> Some ''migrate'' then (False, s4)
         else (case dom_state s4 of
                 (Inl e, s5) \<Rightarrow> (True, s5)
               | (Inr st, s5) \<Rightarrow> (st \<noteq> VIR_DOMAIN_RUNNING, s5)))"

partial_function (option) vd_receive_wait :: "env \<Rightarrow> vm \<Rightarrow> vm option" where
  "vd_receive_wait E s0 =
     (if fst (vd_receive_round E s0)
      then vd_receive_wait E (snd (vd_receive_round E s0))
      else Some (snd (vd_receive_round E s0)))"

definition vd_receive_migrate :: "env \<Rightarrow> vm \<Rightarrow> (outcome \<times> vm) option" where
  "vd_receive_migrate E s0 =
     (case vd_receive_wait E (s0\<lparr>inreceive := True\<rparr>) of
        None \<Rightarrow> None
      | Some s1 \<Rightarrow>
          (case dom_state s1 of
             (Inl (LibvirtError e), s2) \<Rightarrow> Some (Raised (LibvirtError e), s2)
           | (Inl _, s2) \<Rightarrow> Some (Returned, s2\<lparr>inreceive := False\<rparr>)
           | (Inr dom_st, s2) \<Rightarrow>
               if dom_st = VIR_DOMAIN_RUNNING
               then Some (Returned, (addDomainToList s2)\<lparr>inreceive := False\<rparr>)
               else Some (Returned, s2\<lparr>inreceive := False\<rparr>)))"

definition vd_manage_vm_state_pass2 :: "env \<Rightarrow> domstate \<Rightarrow> vm \<Rightarrow> (outcome \<times> vm) option" where
  "vd_manage_vm_state_pass2 E running s2 =
     (if node s2 = Some (this_node s2)
      then (if running = VIR_DOMAIN_RUNNING
            then (if state s2 = Some ''start'' then Some (Returned, addDomainToList s2)
                  else if state s2 = Some ''migrate''
                  then Some (Returned, addDomainToList (writedata [(state_key s2, ''start'')] s2))
                  else if state s2 = Some ''restart'' then Some (vd_restart_vm E s2)
                  else if state s2 = Some ''shutdown'' then Some (vd_shutdown_vm E s2)
                  else if state s2 = Some ''stop'' then Some (vd_stop_vm s2)
                  else Some (Returned, s2))
            else (case (if state s2 = Some ''start'' then Some (vd_start_vm s2)
                        else if state s2 = Some ''migrate'' then vd_receive_migrate E s2
                        else Some (Returned, s2)) of
                    None \<Rightarrow> None
                  | Some r3 \<Rightarrow>
                      Some (then_do r3
                        (\<lambda>s3. if state s3 = Some ''restart''
                               then (Returned, writedata [(state_key s3, ''start'')] s3)
                               else if state s3 = Some ''shutdown''
                               then (Returned, removeDomainFromList s3)
                               else if state s3 = Some ''stop''
                               then (Returned, removeDomainFromList s3)
                               else (Returned, s3)))))
      else (if running = VIR_DOMAIN_RUNNING
            then (if state s2 = Some ''migrate'' then Some (vd_migrate_vm E s2)
                  else Some (vd_terminate_vm s2))
            else Some (Returned, s2)))"

definition vd_manage_vm_state :: "env \<Rightarrow> vm \<Rightarrow> (outcome \<times> vm) option" where
  "vd_manage_vm_state E s =
     (let s0 = sleep E 200 s;
          s1 = s0\<lparr>state := readdata (state_key s0) s0, node := readdata (hypervisor_key s0) s0\<rparr>;
          (r, s2) = try_dom_state s1;
          running = (case r of None \<Rightarrow> VIR_DOMAIN_NOSTATE | Some st \<Rightarrow> st)
      in if instart s2 = False \<and> inrestart s2 = False \<and> inmigrate s2 = False
            \<and> inreceive s2 = False \<and> inshutdown s2 = False \<and> instop s2 = False
         then vd_manage_vm_state_pass2 E running s2
         else Some (Returned, s2))"

section \<open>node-daemon: the command queue for domains (flush_locks, run_command)\<close>

text \<open>
  What \<open>json.loads\<close> gives for the output of \<open>rbd lock list --format json\<close>, and the
  truth value Python gives it in \<open>if lock_list:\<close>.
\<close>

datatype json =
    JNull
  | JBool bool
  | JNum int
  | JStr string
  | JArr "json list"
  | JObj "(string \<times> json) list"

fun truthy :: "json \<Rightarrow> bool" where
  "truthy JNull = False"
| "truthy (JBool b) = b"
| "truthy (JNum n) = (n \<noteq> 0)"
| "truthy (JStr s) = (s \<noteq> [])"
| "truthy (JArr xs) = (xs \<noteq> [])"
| "truthy (JObj kvs) = (kvs \<noteq> [])"

text \<open>
  The two library functions the handler uses on such values: \<open>json.loads\<close> (\<open>None\<close> when
  it raises) and the text that \<open>'{}'.format\<close> gives for a parsed value.
\<close>

record python =
  json_loads :: "string \<Rightarrow> json option"
  str_format :: "json \<Rightarrow> string"

text \<open>
  Modelled from the spec: \<open>pvcnoded/common.py\<close> is not among the sources. Its
  \<open>run_os_command\<close> is the spec's foreground process runner with captured exit status,
  stdout and stderr. The host keeps the command lines run so far; what a command
  returns may depend on them.
\<close>

record cmdhost =
  ran :: "string list"
  result_of :: "string list \<Rightarrow> string \<Rightarrow> int \<times> string \<times> string"

definition nd_run_os_command :: "string \<Rightarrow> cmdhost \<Rightarrow> (int \<times> string \<times> string) \<times> cmdhost" where
  "nd_run_os_command command_string h =
     (result_of h (ran h) command_string, h\<lparr>ran := ran h @ [command_string]\<rparr>)"

definition dquote :: string where
  "dquote = [CHR 0x22]"

definition lock_list_command :: "string \<Rightarrow> string" where
  "lock_list_command rbd = ''rbd lock list --format json '' @ rbd"

definition lock_remove_command :: "string \<Rightarrow> string \<Rightarrow> string \<Rightarrow> string" where
  "lock_remove_command rbd lck locker =
     ''rbd lock remove '' @ rbd @ '' '' @ dquote @ lck @ dquote @ '' '' @ dquote @ locker @ dquote"

text \<open>
  The loop over \<open>lock_list.items()\<close>: the lock is removed whether or not the command
  succeeds; a detail without \<open>'locker'\<close> raises.
\<close>

fun remove_locks :: "python \<Rightarrow> string \<Rightarrow> (string \<times> json) list \<Rightarrow> cmdhost \<Rightarrow> exc option \<times> cmdhost" where
  "remove_locks py rbd [] h = (None, h)"
| "remove_locks py rbd ((lck, detail) # rest) h =
     (case detail of
        JObj kvs \<Rightarrow>
          (case map_of kvs ''locker'' of
             None \<Rightarrow> (Some (KeyError ''locker''), h)
           | Some locker \<Rightarrow>
               (let (r, h1) = nd_run_os_command (lock_remove_command rbd lck (str_format py locker)) h
                in remove_locks py rbd rest h1))
      | _ \<Rightarrow> (Some TypeError, h))"

text \<open>
  The loop over \<open>rbd_list\<close>: a volume whose lock list cannot be had or parsed is
  skipped; \<open>.items()\<close> of a value that is not an object raises.
\<close>

fun flush_locks_loop :: "python \<Rightarrow> string list \<Rightarrow> cmdhost \<Rightarrow> exc option \<times> cmdhost" where
  "flush_locks_loop py [] h = (None, h)"
| "flush_locks_loop py (rbd # rbd_list) h =
     (let ((lock_list_retcode, lock_list_stdout, lock_list_stderr), h1) =
            nd_run_os_command (lock_list_command rbd) h
      in if lock_list_retcode \<noteq> 0 then flush_locks_loop py rbd_list h1
         else (case json_loads py lock_list_stdout of
                 None \<Rightarrow> flush_locks_loop py rbd_list h1
               | Some lock_list \<Rightarrow>
                   if truthy lock_list
                   then (case lock_list of
                           JObj kvs \<Rightarrow>
                             (case remove_locks py rbd kvs h1 of
                                (Some e, h2) \<Rightarrow> (Some e, h2)
                              | (None, h2) \<Rightarrow> flush_locks_loop py rbd_list h2)
                         | _ \<Rightarrow> (Some AttributeError, h1))
                   else flush_locks_loop py rbd_list h1))"

definition rbdlist_key :: "string \<Rightarrow> string" where
  "rbdlist_key dom_uuid = ''/domains/'' @ dom_uuid @ ''/rbdlist''"

definition flush_locks :: "python \<Rightarrow> string \<Rightarrow> zk \<Rightarrow> cmdhost \<Rightarrow> (exc + bool) \<times> cmdhost" where
  "flush_locks py dom_uuid z h =
     (case zk_read z (rbdlist_key dom_uuid) of
        None \<Rightarrow> (Inl AttributeError, h)
      | Some v \<Rightarrow>
          (case flush_locks_loop py (split_on CHR '','' v) h of
             (Some e, h1) \<Rightarrow> (Inl e, h1)
           | (None, h1) \<Rightarrow> (Inr True, h1)))"

text \<open>
  \<open>run_command\<close>, on the store and the host, for a node whose \<open>router_state\<close> is given.
  \<open>command, args = data.split()\<close> raises unless there are exactly two words. The
  advisory lock on \<open>/cmd/domains\<close> and the second of sleep before it is released
  change neither the store nor the host.
\<close>

definition run_command ::
  "python \<Rightarrow> string \<Rightarrow> string \<Rightarrow> zk \<times> cmdhost \<Rightarrow> exc option \<times> zk \<times> cmdhost" where
  "run_command py router_state data zh =
     (case zh of (z, h) \<Rightarrow>
        (case split data of
           [command, cargs] \<Rightarrow>
             if command = ''flush_locks''
             then (let dom_uuid = cargs in
                   if router_state = ''primary''
                   then (case flush_locks py dom_uuid z h of
                           (Inl e, h1) \<Rightarrow> (Some e, z, h1)
                         | (Inr result, h1) \<Rightarrow>
                             if result
                             then (None, zk_write [(''/cmd/domains'', ''success-'' @ data)] z, h1)
                             else (None, zk_write [(''/cmd/domains'', ''failure-'' @ data)] z, h1))
                   else (None, z, h))
             else (None, z, h)
         | _ \<Rightarrow> (Some ValueError, z, h)))"

text \<open>
  Whether a lock list command came back with no lock: status 0 and an output that
  parses to an empty value.
\<close>

definition no_locks :: "python \<Rightarrow> int \<times> string \<times> string \<Rightarrow> bool" where
  "no_locks py r =
     (case r of (retcode, out, err) \<Rightarrow>
        retcode = 0 \<and> (case json_loads py out of None \<Rightarrow> False | Some v \<Rightarrow> \<not> truthy v))"

section \<open>Observations and sample states\<close>

text \<open>What a controller has written to the store between two of its states.\<close>

definition new_writes :: "vm \<Rightarrow> vm \<Rightarrow> (string \<times> string) list" where
  "new_writes s s' = drop (length (writes s)) (writes s')"

definition new_lvcalls :: "vm \<Rightarrow> vm \<Rightarrow> lvcall list" where
  "new_lvcalls s s' = drop (length (lvcalls s)) (lvcalls s')"

text \<open>Whether one of the six re-entrancy flags is set.\<close>

definition busy :: "vm \<Rightarrow> bool" where
  "busy s = (instart s \<or> inrestart s \<or> inmigrate s \<or> inreceive s \<or> inshutdown s \<or> instop s)"

text \<open>
  The node's list and its \<open>runningdomains\<close> key agree and the list has no uuid twice.
  The key starts as the empty string, the list as the empty list.
\<close>

definition running_inv :: "vm \<Rightarrow> bool" where
  "running_inv s =
     (distinct (domain_list s)
      \<and> readdata (runningdomains_key s) s = Some (join '' '' (domain_list s)))"

text \<open>
  Every controller of a node works on the same list: a step is \<open>addDomainToList\<close> or
  \<open>removeDomainFromList\<close> by the controller of some domain.
\<close>

datatype list_op = AddDomain string | RemoveDomain string

fun list_step :: "list_op \<Rightarrow> vm \<Rightarrow> vm" where
  "list_step (AddDomain u) s = addDomainToList (s\<lparr>domuuid := u\<rparr>)"
| "list_step (RemoveDomain u) s = removeDomainFromList (s\<lparr>domuuid := u\<rparr>)"

definition uuid_ok :: "string \<Rightarrow> bool" where
  "uuid_ok u = (u \<noteq> [] \<and> (\<forall>c\<in>set u. \<not> isspace c))"

text \<open>A quiet cluster, an environment in which nothing happens, and an idle controller.\<close>

definition cluster0 :: cluster where
  "cluster0 = \<lparr>store = Map.empty, hv = Map.empty, local_open = True, remote_open = True,
                create_error = None, migrate_ok = True\<rparr>"

definition env_idle :: env where
  "env_idle t c = c"

definition vm0 :: vm where
  "vm0 = \<lparr>domuuid = ''7e3c'', state = None, node = None,
           instart = False, inrestart = False, inmigrate = False,
           inreceive = False, inshutdown = False, instop = False,
           dom_obj = None, this_node = ''hv1'', domain_list = [],
           cluster_domain = ''pvc.local'', console_log = False,
           writes = [], lvcalls = [], slept = 0, world = cluster0\<rparr>"

text \<open>The domain runs on \<open>hv1\<close>, which holds a handle to it and lists it.\<close>

definition vm_running :: vm where
  "vm_running =
     vm0\<lparr>dom_obj := Some ''7e3c'', domain_list := [''7e3c''],
         world := cluster0\<lparr>hv := [''7e3c'' \<mapsto> VIR_DOMAIN_RUNNING],
                          store := [''/domains/7e3c/state'' \<mapsto> ''start'',
                                    ''/domains/7e3c/node'' \<mapsto> ''hv1'',
                                    ''/domains/7e3c/hypervisor'' \<mapsto> ''hv1'',
                                    ''/nodes/hv1/runningdomains'' \<mapsto> ''7e3c'']\<rparr>\<rparr>"

text \<open>
  A managed network on a router, with its host; the router is secondary, or primary.
\<close>

definition host0 :: os where
  "host0 = \<lparr>spawned = [], signalled = [], can_exec = (\<lambda>_. True),
             exit_status = (\<lambda>_. 0), getenv = [(''PVCRD_CONFIG_FILE'', ''/etc/pvc/pvcrd.conf'')]\<rparr>"

definition vx_secondary :: vxnet where
  "vx_secondary =
     \<lparr>vni = ''1001'', vni_dev = ''ens4'', network_state = ''secondary'',
      domain = Some ''net1001.pvc.local'', ip_gateway = Some ''10.100.0.1'',
      ip_cidrnetmask = Some ''24'', dhcp_flag = True,
      dhcp_start = Some ''10.100.0.100'', dhcp_end = Some ''10.100.0.199'',
      vxlan_nic = ''vxlan1001'', bridge_nic = ''br1001'',
      dnsmasq_hostsdir = ''/var/lib/dnsmasq/1001'', dhcp_server_daemon = None, host = host0\<rparr>"

definition vx_primary :: vxnet where
  "vx_primary = vx_secondary\<lparr>network_state := ''primary''\<rparr>"

text \<open>
  A host on which every \<open>rbd lock list\<close> answers \<open>[]\<close> with status 0, a parser that
  knows this output, and a store that lists two volumes for the domain.
\<close>

definition py0 :: python where
  "py0 = \<lparr>json_loads = (\<lambda>out. if out = ''[]'' then Some (JArr []) else None),
            str_format = (\<lambda>v. case v of JStr t \<Rightarrow> t | _ \<Rightarrow> [])\<rparr>"

definition cmdhost0 :: cmdhost where
  "cmdhost0 = \<lparr>ran = [], result_of = (\<lambda>hist cmd. (0, ''[]'', []))\<rparr>"

definition cmd_store :: zk where
  "cmd_store = [''/domains/7e3c/rbdlist'' \<mapsto> ''vms/7e3c_disk0,vms/7e3c_disk1'',
                ''/cmd/domains'' \<mapsto> ''flush_locks 7e3c'']"

text \<open>
  The domain is to arrive on \<open>hv1\<close>: the store says \<open>migrate\<close> with \<open>hv1\<close> as the
  node, no failure has been recorded, and libvirt on \<open>hv1\<close> does not know the domain.
\<close>

definition vm_incoming :: vm where
  "vm_incoming =
     vm0\<lparr>state := Some ''migrate'', node := Some ''hv1'',
         world := cluster0\<lparr>store := [''/domains/7e3c/state'' \<mapsto> ''migrate'',
                                    ''/domains/7e3c/node'' \<mapsto> ''hv1'',
                                    ''/domains/7e3c/failedreason'' \<mapsto> []]\<rparr>\<rparr>"

text \<open>The domain runs on \<open>hv1\<close> and is to leave for \<open>hv2\<close>.\<close>

definition vm_leaving :: vm where
  "vm_leaving =
     vm_running\<lparr>state := Some ''migrate'', node := Some ''hv2'',
         world := (world vm_running)\<lparr>store := [''/domains/7e3c/state'' \<mapsto> ''migrate'',
                                    ''/domains/7e3c/node'' \<mapsto> ''hv2'',
                                    ''/domains/7e3c/hypervisor'' \<mapsto> ''hv2'',
                                    ''/nodes/hv1/runningdomains'' \<mapsto> ''7e3c'']\<rparr>\<rparr>"

text \<open>An environment in which the guest has halted by the time the controller first wakes up.\<close>

definition env_halt :: env where
  "env_halt t c = c\<lparr>hv := Map.empty\<rparr>"

text \<open>
  Whether the shutdown that \<open>shutdown_vm\<close> asks for is accepted, and whether its wait
  is then aborted by a change of the state key.
\<close>

definition shutdown_accepted :: "vm \<Rightarrow> bool" where
  "shutdown_accepted s = (fst (dom_shutdown (s\<lparr>inshutdown := True\<rparr>)) = None)"

definition shutdown_aborted :: "env \<Rightarrow> vm \<Rightarrow> bool" where
  "shutdown_aborted E s = fst (shutdown_wait E 0 (snd (dom_shutdown (s\<lparr>inshutdown := True\<rparr>))))"

text \<open>The time the wait of a shutdown takes, in milliseconds, in the two daemons.\<close>

definition shutdown_waited :: "env \<Rightarrow> vm \<Rightarrow> nat" where
  "shutdown_waited E s =
     slept (snd (shutdown_wait E 0 (snd (dom_shutdown (s\<lparr>inshutdown := True\<rparr>))))) - slept s"

definition vd_shutdown_waited :: "env \<Rightarrow> vm \<Rightarrow> nat" where
  "vd_shutdown_waited E s =
     slept (snd (vd_shutdown_wait E 0 (snd (dom_shutdown (s\<lparr>inshutdown := True\<rparr>))))) - slept s"

text \<open>
  One round of the first receive loop when the domain is not there and the store says
  \<open>migrate\<close>: the controller as it enters the next round.
\<close>

definition receive_round :: "vm \<Rightarrow> vm" where
  "receive_round s =
     (let s1 = sleep env_idle 1000 s;
          s2 = s1\<lparr>state := readdata (state_key s1) s1\<rparr>
      in (snd (lookupByUUID s2))\<lparr>dom_obj := None\<rparr>)"


text \<open>Whether the live migration that \<open>migrate_vm\<close> attempts goes through.\<close>

definition live_send_ok :: "vm \<Rightarrow> bool" where
  "live_send_ok s = fst (live_migrate_vm (s\<lparr>inmigrate := True\<rparr>))"

text \<open>
  More sample states: the domain is to leave but the destination cannot be reached;
  the domain runs and is being restarted; the domain runs and is to shut down.
\<close>

definition vm_blocked :: vm where
  "vm_blocked = vm_leaving\<lparr>world := (world vm_leaving)\<lparr>remote_open := False\<rparr>\<rparr>"

definition vm_restarting :: vm where
  "vm_restarting =
     vm_running\<lparr>state := Some ''restart'', node := Some ''hv1'', inrestart := True,
         world := (world vm_running)\<lparr>store := [''/domains/7e3c/state'' \<mapsto> ''restart'',
                                    ''/domains/7e3c/node'' \<mapsto> ''hv1'',
                                    ''/domains/7e3c/hypervisor'' \<mapsto> ''hv1'',
                                    ''/nodes/hv1/runningdomains'' \<mapsto> ''7e3c'']\<rparr>\<rparr>"

definition vm_stopping :: vm where
  "vm_stopping =
     vm_running\<lparr>state := Some ''shutdown'', node := Some ''hv1'',
         world := (world vm_running)\<lparr>store := [''/domains/7e3c/state'' \<mapsto> ''shutdown'',
                                    ''/domains/7e3c/node'' \<mapsto> ''hv1'',
                                    ''/domains/7e3c/hypervisor'' \<mapsto> ''hv1'',
                                    ''/nodes/hv1/runningdomains'' \<mapsto> ''7e3c'']\<rparr>\<rparr>"


text \<open>Whether the live migration that the older daemon's \<open>migrate_vm\<close> attempts goes through.\<close>

definition vd_live_send_ok :: "vm \<Rightarrow> bool" where
  "vd_live_send_ok s = (fst (vd_live_migrate_vm (s\<lparr>inmigrate := True\<rparr>)) = 0)"

section \<open>Results\<close>

lemma split_check: "split ''/bin/check  now'' = [''/bin/check'', ''now'']"
  by (simp add: split_def isspace_def)

text \<open>
  C8. A foreground \<open>run_os_command\<close> is meant to wait for the program and to return its
  exit status. The code returns the \<open>returncode\<close> of a handle it never waited on: the
  value is \<open>None\<close> whether the program exits with 0 or with 1, so the caller cannot tell
  the two apart.
\<close>

theorem run_os_command_foreground_returns_None:
  "fst (run_os_command ''/bin/check now'' False None (os_exit 0)) = Inr None
   \<and> fst (run_os_command ''/bin/check now'' False None (os_exit 1)) = Inr None
   \<and> exit_status (os_exit 0) [''/bin/check'', ''now''] = 0
   \<and> exit_status (os_exit 1) [''/bin/check'', ''now''] = 1"
  by (simp add: run_os_command_def Popen_def os_exit_def split_def isspace_def)

text \<open>
  C7. A network controller whose router is not in network state \<open>primary\<close> brings up
  neither the gateway address nor the DHCP daemon: \<open>createGatewayAddress\<close> and
  \<open>startDHCPServer\<close> return at once and leave the controller and its host as they were
  (no \<open>ip address add\<close>, no \<open>arping\<close>, no \<open>dnsmasq\<close>), and the two watches that call
  them start no program either.
\<close>

theorem gateway_and_dhcp_only_on_primary:
  "network_state s \<noteq> ''primary'' \<Longrightarrow>
     createGatewayAddress s = (None, s)
     \<and> startDHCPServer s = (None, s)
     \<and> host (snd (watch_network_gateway deleted data s)) = host s
     \<and> host (snd (watch_network_dhcp_status deleted' data' s)) = host s"
  by (auto simp: createGatewayAddress_def startDHCPServer_def watch_network_gateway_def
                 watch_network_dhcp_status_def Let_def
           split: option.splits)

text \<open>
  C1. Flushing a node is meant to send each running domain to the peer with the most
  free memory and to set the domain's state and target keys. The method does neither:
  for every instance with a running domain it raises a \<open>NameError\<close> at the bare name
  \<open>node_list\<close> and leaves the store as it was, so \<open>/domains/d1/state\<close> and
  \<open>/domains/d1/hypervisor\<close> keep \<open>start\<close> and \<open>hv1\<close>. Were the name bound to the peers,
  the selection would still choose none of them: it starts from \<open>(2^64)/8 = 8.25\<close> and
  keeps a node only when its free memory is smaller than the best so far, so with
  \<open>hv2\<close> (4 GB free) and \<open>hv3\<close> (8 GB free) the target written is the empty string;
  and with the strings that remote nodes hold as free memory the comparison raises.
\<close>

theorem flush_picks_no_node:
  "flush (d # domainlist) z = (Some (NameError ''node_list''), z)
   \<and> fst (flush [''d1''] flush_store) = Some (NameError ''node_list'')
   \<and> snd (flush [''d1''] flush_store) ''/domains/d1/state'' = Some ''start''
   \<and> snd (flush [''d1''] flush_store) ''/domains/d1/hypervisor'' = Some ''hv1''
   \<and> least_mem_init = PyFloat (33 / 4)
   \<and> flush_select flush_peers least_mem_init [] = Inr []
   \<and> fst (flush_with (Some flush_peers) [''d1''] flush_store) = None
   \<and> snd (flush_with (Some flush_peers) [''d1''] flush_store) ''/domains/d1/hypervisor'' = Some []
   \<and> snd (flush_with (Some flush_peers) [''d1''] flush_store) ''/domains/d1/state'' = Some ''flush''
   \<and> flush_with (Some flush_peers_remote) [''d1''] flush_store = (Some CompareTypeError, flush_store)"
  by (simp add: flush_def module_node_list_def least_mem_init_def flush_peers_def
        flush_peers_remote_def flush_store_def zk_set_def)

subsection \<open>The list of running domains\<close>

lemma split_acc_nospace:
  "\<forall>c\<in>set x. \<not> p c \<Longrightarrow> split_acc p cur (x @ r) = split_acc p (rev x @ cur) r"
  by (induction x arbitrary: cur) auto

lemma isspace_space: "isspace CHR '' ''"
  by (simp add: isspace_def)

lemma split_join:
  "\<forall>x\<in>set xs. uuid_ok x \<Longrightarrow> split (join '' '' xs) = xs"
proof (induction xs)
  case Nil
  then show ?case by (simp add: split_def)
next
  case (Cons x xs)
  show ?case
  proof (cases xs)
    case Nil
    with Cons.prems show ?thesis
      using split_acc_nospace[of x isspace "[]" "[]"] by (simp add: split_def uuid_ok_def)
  next
    case (Cons y ys)
    with Cons.prems Cons.IH show ?thesis
      using split_acc_nospace[of x isspace "[]" "'' '' @ join '' '' (y # ys)"]
      by (simp add: split_def isspace_space uuid_ok_def)
  qed
qed

lemma addDomainToList_inv: "running_inv s \<Longrightarrow> running_inv (addDomainToList s)"
  by (simp add: running_inv_def addDomainToList_def writedata_def readdata_def zk_read_def
                zk_write_def runningdomains_key_def Let_def)

lemma removeDomainFromList_inv: "running_inv s \<Longrightarrow> running_inv (removeDomainFromList s)"
  by (simp add: running_inv_def removeDomainFromList_def writedata_def readdata_def zk_read_def
                zk_write_def runningdomains_key_def Let_def)

lemma running_inv_domuuid: "running_inv (s\<lparr>domuuid := u\<rparr>) = running_inv s"
  by (simp add: running_inv_def readdata_def runningdomains_key_def)

lemma list_step_inv: "running_inv s \<Longrightarrow> running_inv (list_step op s)"
  by (cases op) (simp_all add: addDomainToList_inv removeDomainFromList_inv running_inv_domuuid)

lemma list_steps_inv: "running_inv s \<Longrightarrow> running_inv (fold list_step ops s)"
  by (induction ops arbitrary: s) (simp_all add: list_step_inv)

text \<open>
  C9. \<open>addDomainToList\<close> (the same in both daemons) does nothing for a uuid that is
  already in the node's list: the controller, the list and the store stay as they are.
  As the list and the \<open>runningdomains\<close> key start out in agreement and without a
  repeated uuid, they stay so under every sequence of additions and removals by the
  node's controllers, and the words of \<open>runningdomains\<close> are the list.
\<close>

theorem addDomainToList_idempotent:
  "(domuuid s \<in> set (domain_list s) \<longrightarrow> addDomainToList s = s)
   \<and> (running_inv s \<longrightarrow> running_inv (fold list_step ops s))
   \<and> (running_inv s \<and> (\<forall>u\<in>set (domain_list s). uuid_ok u) \<longrightarrow>
        map_option split (readdata (runningdomains_key s) s) = Some (domain_list s)
        \<and> distinct (domain_list s))"
proof (intro conjI impI)
  assume "domuuid s \<in> set (domain_list s)"
  then show "addDomainToList s = s" by (simp add: addDomainToList_def)
next
  assume "running_inv s"
  then show "running_inv (fold list_step ops s)" by (rule list_steps_inv)
next
  assume a: "running_inv s \<and> (\<forall>u\<in>set (domain_list s). uuid_ok u)"
  then show "map_option split (readdata (runningdomains_key s) s) = Some (domain_list s)"
    by (simp add: running_inv_def split_join)
  from a show "distinct (domain_list s)" by (simp add: running_inv_def)
qed

theorem addDomainToList_idempotent_witness:
  "domuuid vm_running \<in> set (domain_list vm_running)
   \<and> addDomainToList vm_running = vm_running
   \<and> running_inv vm_running
   \<and> running_inv (fold list_step [AddDomain ''7e3c'', AddDomain ''91aa'', RemoveDomain ''7e3c''] vm_running)
   \<and> map_option split (readdata (runningdomains_key vm_running) vm_running) = Some (domain_list vm_running)"
proof -
  have 1: "domuuid vm_running \<in> set (domain_list vm_running)"
    by (simp add: vm_running_def vm0_def)
  have 2: "running_inv vm_running"
    by (simp add: vm_running_def vm0_def cluster0_def running_inv_def readdata_def zk_read_def
          runningdomains_key_def)
  have 3: "\<forall>u\<in>set (domain_list vm_running). uuid_ok u"
    by (simp add: vm_running_def vm0_def uuid_ok_def isspace_def)
  show ?thesis
    using 1 2 3
      addDomainToList_idempotent[of vm_running "[AddDomain ''7e3c'', AddDomain ''91aa'', RemoveDomain ''7e3c'']"]
    by blast
qed


subsection \<open>Force-termination\<close>

lemma state_key_not_running [simp]: "state_key s \<noteq> runningdomains_key s'"
  by (simp add: state_key_def runningdomains_key_def)

lemma new_writes_app [simp]: "writes s' = writes s @ ws \<Longrightarrow> new_writes s s' = ws"
  by (simp add: new_writes_def)

lemma removeDomainFromList_frame:
  "store (world (removeDomainFromList s)) (state_key s) = store (world s) (state_key s)
   \<and> (\<exists>ws. writes (removeDomainFromList s) = writes s @ ws \<and> set ws \<subseteq> {runningdomains_key s} \<times> UNIV)
   \<and> hv (world (removeDomainFromList s)) = hv (world s)
   \<and> domain_list (removeDomainFromList s) = remove1 (domuuid s) (domain_list s)"
  by (simp add: removeDomainFromList_def writedata_def zk_write_def Let_def runningdomains_key_def state_key_def remove1_idem)

lemma terminate_vm_frame:
  "store (world (snd (terminate_vm s))) (state_key s) = store (world s) (state_key s)
   \<and> state_key s \<notin> fst ` set (new_writes s (snd (terminate_vm s)))"
  by (auto simp: terminate_vm_def dom_destroy_def removeDomainFromList_def writedata_def zk_write_def
        Let_def set_hv_def lv_log_def new_writes_def
      split: option.splits prod.splits if_splits)

lemma vd_terminate_vm_frame:
  "store (world (snd (vd_terminate_vm s))) (state_key s) = store (world s) (state_key s)
   \<and> state_key s \<notin> fst ` set (new_writes s (snd (vd_terminate_vm s)))"
  by (auto simp: vd_terminate_vm_def dom_destroy_def removeDomainFromList_def writedata_def zk_write_def
        Let_def set_hv_def lv_log_def new_writes_def
      split: option.splits prod.splits if_splits)

lemma terminate_vm_effect:
  "dom_obj s = Some h \<Longrightarrow> active s h \<Longrightarrow>
     fst (terminate_vm s) = Returned
     \<and> hv (world (snd (terminate_vm s))) h = None
     \<and> domain_list (snd (terminate_vm s)) = remove1 (domuuid s) (domain_list s)
     \<and> dom_obj (snd (terminate_vm s)) = None"
  by (auto simp: terminate_vm_def dom_destroy_def removeDomainFromList_def writedata_def zk_write_def
        Let_def set_hv_def lv_log_def active_def remove1_idem
      split: option.splits prod.splits if_splits)

lemma vd_terminate_vm_effect:
  "dom_obj s = Some h \<Longrightarrow> active s h \<Longrightarrow>
     fst (vd_terminate_vm s) = Returned
     \<and> hv (world (snd (vd_terminate_vm s))) h = None
     \<and> domain_list (snd (vd_terminate_vm s)) = remove1 (domuuid s) (domain_list s)
     \<and> dom_obj (snd (vd_terminate_vm s)) = None"
  by (auto simp: vd_terminate_vm_def dom_destroy_def removeDomainFromList_def writedata_def zk_write_def
        Let_def set_hv_def lv_log_def active_def remove1_idem
      split: option.splits prod.splits if_splits)

lemma stop_vm_writes_stop:
  "inrestart s = False \<Longrightarrow> fst (stop_vm s) = Returned \<Longrightarrow>
     store (world (snd (stop_vm s))) (state_key s) = Some ''stop''
     \<and> (state_key s, ''stop'') \<in> set (new_writes s (snd (stop_vm s)))"
  by (auto simp: stop_vm_def dom_destroy_def removeDomainFromList_def writedata_def zk_write_def
        Let_def set_hv_def lv_log_def new_writes_def state_key_def
      split: option.splits prod.splits if_splits)


text \<open>
  C10. \<open>terminate_vm\<close> never writes the domain's state key: in both daemons, and
  however the call ends, the key holds afterwards what it held before and is not among
  the keys written. When the controller holds a handle to a domain that libvirt has,
  the domain is destroyed and the uuid is taken off the running list. \<open>stop_vm\<close>, by
  contrast, writes \<open>stop\<close> (outside a restart).
\<close>

theorem terminate_vm_leaves_state_key:
  "store (world (snd (terminate_vm s))) (state_key s) = store (world s) (state_key s)
   \<and> state_key s \<notin> fst ` set (new_writes s (snd (terminate_vm s)))
   \<and> store (world (snd (vd_terminate_vm s))) (state_key s) = store (world s) (state_key s)
   \<and> state_key s \<notin> fst ` set (new_writes s (snd (vd_terminate_vm s)))
   \<and> (dom_obj s = Some h \<and> active s h \<longrightarrow>
        fst (terminate_vm s) = Returned
        \<and> hv (world (snd (terminate_vm s))) h = None
        \<and> domain_list (snd (terminate_vm s)) = remove1 (domuuid s) (domain_list s)
        \<and> fst (vd_terminate_vm s) = Returned
        \<and> hv (world (snd (vd_terminate_vm s))) h = None
        \<and> domain_list (snd (vd_terminate_vm s)) = remove1 (domuuid s) (domain_list s))
   \<and> (inrestart s = False \<and> fst (stop_vm s) = Returned \<longrightarrow>
        store (world (snd (stop_vm s))) (state_key s) = Some ''stop''
        \<and> (state_key s, ''stop'') \<in> set (new_writes s (snd (stop_vm s))))"
  using terminate_vm_frame[of s] vd_terminate_vm_frame[of s]
        terminate_vm_effect[of s h] vd_terminate_vm_effect[of s h] stop_vm_writes_stop[of s]
  by blast

theorem terminate_vm_leaves_state_key_witness:
  "dom_obj vm_running = Some ''7e3c'' \<and> active vm_running ''7e3c''
   \<and> inrestart vm_running = False \<and> fst (stop_vm vm_running) = Returned
   \<and> store (world (snd (terminate_vm vm_running))) (state_key vm_running) = Some ''start''
   \<and> hv (world (snd (terminate_vm vm_running))) ''7e3c'' = None
   \<and> domain_list (snd (terminate_vm vm_running)) = []
   \<and> store (world (snd (stop_vm vm_running))) (state_key vm_running) = Some ''stop''"
proof -
  have 1: "dom_obj vm_running = Some ''7e3c'' \<and> active vm_running ''7e3c''
           \<and> inrestart vm_running = False"
    by (simp add: vm_running_def vm0_def cluster0_def active_def)
  have 2: "fst (stop_vm vm_running) = Returned"
    by (simp add: vm_running_def vm0_def cluster0_def stop_vm_def dom_destroy_def active_def
          Let_def)
  have 3: "store (world vm_running) (state_key vm_running) = Some ''start''
           \<and> remove1 (domuuid vm_running) (domain_list vm_running) = []"
    by (simp add: vm_running_def vm0_def cluster0_def state_key_def)
  show ?thesis
    using 1 2 3 terminate_vm_leaves_state_key[of vm_running "''7e3c''"]
    by simp
qed


subsection \<open>The re-entrancy flags\<close>

lemma try_dom_state_frame:
  "writes (snd (try_dom_state s)) = writes s
   \<and> world (snd (try_dom_state s)) = world s
   \<and> domain_list (snd (try_dom_state s)) = domain_list s
   \<and> lvcalls (snd (try_dom_state s)) = lvcalls s @ (case dom_obj s of None \<Rightarrow> [] | Some h \<Rightarrow> [LvState h])
   \<and> busy (snd (try_dom_state s)) = busy s"
  by (simp add: try_dom_state_def dom_state_def lv_log_def busy_def split: option.splits)

lemma manage_vm_state_busy_eq:
  "busy s \<Longrightarrow>
     manage_vm_state (Suc n) E s =
       (Returned, snd (try_dom_state (s\<lparr>state := readdata (state_key s) s, node := readdata (node_key s) s\<rparr>)))"
  using try_dom_state_frame[of "s\<lparr>state := readdata (state_key s) s, node := readdata (node_key s) s\<rparr>"]
  by (auto simp: manage_vm_state_body_def Let_def busy_def split: prod.splits)

lemma vd_manage_vm_state_busy_eq:
  "busy s \<Longrightarrow>
     vd_manage_vm_state E s =
       Some (Returned, snd (try_dom_state ((sleep E 200 s)\<lparr>state := readdata (state_key s) (sleep E 200 s),
                  node := readdata (hypervisor_key s) (sleep E 200 s)\<rparr>)))"
  using try_dom_state_frame[of "(sleep E 200 s)\<lparr>state := readdata (state_key s) (sleep E 200 s),
                  node := readdata (hypervisor_key s) (sleep E 200 s)\<rparr>"]
  by (auto simp: vd_manage_vm_state_def Let_def busy_def sleep_def state_key_def hypervisor_key_def split: prod.splits)

text \<open>
  C5. When one of the six flags is set, \<open>manage_vm_state\<close> returns without acting: it
  writes no store key and leaves the shared world and the node's domain list as they
  are. It does not return without any call to libvirt, though: the state of the domain
  is asked through the controller's handle before the flags are looked at, so a
  controller that holds a handle makes that one query (pvcvd also sleeps 0.2 s first,
  during which only the environment acts).
\<close>

theorem manage_vm_state_busy:
  "busy s \<Longrightarrow>
     (case manage_vm_state (Suc n) E s of (oc, s') \<Rightarrow>
        oc = Returned \<and> writes s' = writes s \<and> world s' = world s
        \<and> domain_list s' = domain_list s
        \<and> new_lvcalls s s' = (case dom_obj s of None \<Rightarrow> [] | Some h \<Rightarrow> [LvState h]))
     \<and> (case vd_manage_vm_state E s of
          None \<Rightarrow> False
        | Some (oc, s') \<Rightarrow>
            oc = Returned \<and> writes s' = writes s \<and> world s' = E (slept s + 200) (world s)
            \<and> domain_list s' = domain_list s
            \<and> new_lvcalls s s' = (case dom_obj s of None \<Rightarrow> [] | Some h \<Rightarrow> [LvState h]))"
proof -
  assume b: "busy s"
  let ?a = "s\<lparr>state := readdata (state_key s) s, node := readdata (node_key s) s\<rparr>"
  let ?b = "(sleep E 200 s)\<lparr>state := readdata (state_key s) (sleep E 200 s),
                  node := readdata (hypervisor_key s) (sleep E 200 s)\<rparr>"
  have 1: ?thesis
    unfolding manage_vm_state_busy_eq[OF b] vd_manage_vm_state_busy_eq[OF b]
    using try_dom_state_frame[of ?a] try_dom_state_frame[of ?b]
    by (simp add: new_lvcalls_def sleep_def)
  then show ?thesis .
qed

theorem manage_vm_state_busy_counterexample:
  "busy (vm_running\<lparr>instart := True\<rparr>)
   \<and> new_lvcalls (vm_running\<lparr>instart := True\<rparr>)
        (snd (manage_vm_state 1 env_idle (vm_running\<lparr>instart := True\<rparr>))) = [LvState ''7e3c'']"
  by (simp add: manage_vm_state_body_def busy_def vm_running_def vm0_def cluster0_def
        try_dom_state_def dom_state_def lv_log_def new_lvcalls_def readdata_def zk_read_def
        state_key_def node_key_def Let_def)


theorem manage_vm_state_busy_witness:
  "busy (vm_running\<lparr>inshutdown := True\<rparr>)
   \<and> (case manage_vm_state (Suc 0) env_idle (vm_running\<lparr>inshutdown := True\<rparr>) of
        (oc, s') \<Rightarrow> oc = Returned \<and> writes s' = [] \<and> domain_list s' = [''7e3c''])
   \<and> (case vd_manage_vm_state env_idle (vm_running\<lparr>inshutdown := True\<rparr>) of
        None \<Rightarrow> False
      | Some (oc, s') \<Rightarrow> oc = Returned \<and> writes s' = [] \<and> domain_list s' = [''7e3c''])"
proof -
  have b: "busy (vm_running\<lparr>inshutdown := True\<rparr>)"
    by (simp add: busy_def)
  have c: "writes (vm_running\<lparr>inshutdown := True\<rparr>) = []
           \<and> domain_list (vm_running\<lparr>inshutdown := True\<rparr>) = [''7e3c'']"
    by (simp add: vm_running_def vm0_def)
  show ?thesis
    using b c manage_vm_state_busy[OF b, of 0 env_idle]
    by (auto split: prod.splits option.splits)
qed

subsection \<open>The gateway on a secondary and on the primary\<close>

theorem gateway_and_dhcp_only_on_primary_witness:
  "network_state vx_secondary \<noteq> ''primary''
   \<and> createGatewayAddress vx_secondary = (None, vx_secondary)
   \<and> startDHCPServer vx_secondary = (None, vx_secondary)
   \<and> spawned (host (snd (watch_network_gateway False (Some ''10.100.0.254'') vx_secondary))) = []
   \<and> spawned (host (snd (watch_network_dhcp_status False (Some ''True'') vx_secondary))) = []"
proof -
  have 1: "network_state vx_secondary \<noteq> ''primary''"
    by (simp add: vx_secondary_def)
  have 2: "spawned (host vx_secondary) = []"
    by (simp add: vx_secondary_def host0_def)
  show ?thesis
    using 1 2 gateway_and_dhcp_only_on_primary[OF 1, of False "Some ''10.100.0.254''" False "Some ''True''"]
    by simp
qed

lemma split_ip_address_add:
  "split ''ip address add 10.100.0.1/24 dev br1001''
     = [''ip'', ''address'', ''add'', ''10.100.0.1/24'', ''dev'', ''br1001'']"
  by (simp add: split_def isspace_def)

lemma split_arping:
  "split ''arping -A -c2 -I br1001 10.100.0.1''
     = [''arping'', ''-A'', ''-c2'', ''-I'', ''br1001'', ''10.100.0.1'']"
  by (simp add: split_def isspace_def)

lemma createGatewayAddress_on_primary:
  "fst (createGatewayAddress vx_primary) = None
   \<and> map fst (spawned (host (snd (createGatewayAddress vx_primary))))
       = [[''ip'', ''address'', ''add'', ''10.100.0.1/24'', ''dev'', ''br1001''],
          [''arping'', ''-A'', ''-c2'', ''-I'', ''br1001'', ''10.100.0.1'']]"
  by (simp add: createGatewayAddress_def os_call_def run_os_command_def Popen_def
        vx_primary_def vx_secondary_def host0_def fmt_def split_ip_address_add split_arping)

subsection \<open>Flushing locks\<close>

lemma flush_locks_loop_no_locks:
  "\<forall>rbd\<in>set rbds. \<forall>hist. no_locks py (result_of h hist (lock_list_command rbd)) \<Longrightarrow>
     flush_locks_loop py rbds h = (None, h\<lparr>ran := ran h @ map lock_list_command rbds\<rparr>)"
proof (induction rbds arbitrary: h)
  case Nil
  then show ?case by simp
next
  case (Cons rbd rbds)
  let ?h1 = "h\<lparr>ran := ran h @ [lock_list_command rbd]\<rparr>"
  from Cons.prems have here: "no_locks py (result_of h (ran h) (lock_list_command rbd))"
    by simp
  from Cons.prems
  have rest: "\<forall>r\<in>set rbds. \<forall>hist. no_locks py (result_of ?h1 hist (lock_list_command r))"
    by simp
  have "flush_locks_loop py (rbd # rbds) h = flush_locks_loop py rbds ?h1"
    using here
    by (auto simp: nd_run_os_command_def no_locks_def split: prod.splits option.splits)
  also have "\<dots> = (None, ?h1\<lparr>ran := ran ?h1 @ map lock_list_command rbds\<rparr>)"
    by (rule Cons.IH[OF rest])
  finally show ?case by simp
qed

text \<open>
  C6. Flushing the locks of a domain whose listed volumes carry no locks succeeds, the
  first time and again: \<open>flush_locks\<close> returns \<open>True\<close> after having listed the locks of
  each volume and removed none, and the handler on the primary writes
  \<open>success-<request>\<close> to \<open>/cmd/domains\<close>.
\<close>

theorem flush_locks_without_locks_succeeds:
  "zk_read z (rbdlist_key u) = Some v \<Longrightarrow>
   \<forall>rbd\<in>set (split_on CHR '','' v). \<forall>hist. no_locks py (result_of h hist (lock_list_command rbd)) \<Longrightarrow>
   split data = [''flush_locks'', u] \<Longrightarrow>
     flush_locks py u z h
       = (Inr True, h\<lparr>ran := ran h @ map lock_list_command (split_on CHR '','' v)\<rparr>)
     \<and> fst (flush_locks py u z (snd (flush_locks py u z h))) = Inr True
     \<and> run_command py ''primary'' data (z, h)
       = (None, z(''/cmd/domains'' \<mapsto> ''success-'' @ data),
          h\<lparr>ran := ran h @ map lock_list_command (split_on CHR '','' v)\<rparr>)"
proof -
  assume rd: "zk_read z (rbdlist_key u) = Some v"
    and nl: "\<forall>rbd\<in>set (split_on CHR '','' v). \<forall>hist. no_locks py (result_of h hist (lock_list_command rbd))"
    and sp: "split data = [''flush_locks'', u]"
  let ?h1 = "h\<lparr>ran := ran h @ map lock_list_command (split_on CHR '','' v)\<rparr>"
  have 1: "flush_locks py u z h = (Inr True, ?h1)"
    using rd flush_locks_loop_no_locks[OF nl] by (simp add: flush_locks_def)
  from nl have nl1: "\<forall>rbd\<in>set (split_on CHR '','' v). \<forall>hist. no_locks py (result_of ?h1 hist (lock_list_command rbd))"
    by simp
  have 2: "fst (flush_locks py u z ?h1) = Inr True"
    using rd flush_locks_loop_no_locks[OF nl1] by (simp add: flush_locks_def)
  have 3: "run_command py ''primary'' data (z, h) = (None, z(''/cmd/domains'' \<mapsto> ''success-'' @ data), ?h1)"
    using sp 1 by (simp add: run_command_def zk_write_def)
  show ?thesis using 1 2 3 by simp
qed

lemma split_rbdlist:
  "split_on CHR '','' ''vms/7e3c_disk0,vms/7e3c_disk1'' = [''vms/7e3c_disk0'', ''vms/7e3c_disk1'']"
  by (simp add: split_on_def)

lemma split_request: "split ''flush_locks 7e3c'' = [''flush_locks'', ''7e3c'']"
  by (simp add: split_def isspace_def)

theorem flush_locks_without_locks_succeeds_witness:
  "zk_read cmd_store (rbdlist_key ''7e3c'') = Some ''vms/7e3c_disk0,vms/7e3c_disk1''
   \<and> split ''flush_locks 7e3c'' = [''flush_locks'', ''7e3c'']
   \<and> fst (flush_locks py0 ''7e3c'' cmd_store cmdhost0) = Inr True
   \<and> ran (snd (flush_locks py0 ''7e3c'' cmd_store cmdhost0))
       = [''rbd lock list --format json vms/7e3c_disk0'', ''rbd lock list --format json vms/7e3c_disk1'']
   \<and> fst (snd (run_command py0 ''primary'' ''flush_locks 7e3c'' (cmd_store, cmdhost0))) ''/cmd/domains''
       = Some ''success-flush_locks 7e3c''"
proof -
  have rd: "zk_read cmd_store (rbdlist_key ''7e3c'') = Some ''vms/7e3c_disk0,vms/7e3c_disk1''"
    by (simp add: zk_read_def cmd_store_def rbdlist_key_def)
  have nl: "\<forall>rbd\<in>set (split_on CHR '','' ''vms/7e3c_disk0,vms/7e3c_disk1''). 
              \<forall>hist. no_locks py0 (result_of cmdhost0 hist (lock_list_command rbd))"
    by (simp add: no_locks_def py0_def cmdhost0_def)
  show ?thesis
    using rd split_request
      flush_locks_without_locks_succeeds[OF rd nl split_request]
    by (simp add: split_rbdlist lock_list_command_def cmdhost0_def)
qed


subsection \<open>Receiving a migration\<close>

lemma zk_write_single: "zk_write [(k, v)] z = z(k \<mapsto> v)"
  by (simp add: zk_write_def)

lemma writedata_single:
  "writedata [(k, v)] s =
     s\<lparr>writes := writes s @ [(k, v)], world := (world s)\<lparr>store := (store (world s))(k \<mapsto> v)\<rparr>\<rparr>"
  by (simp add: writedata_def zk_write_single)

lemma lookupByUUID_absent:
  "domuuid s \<notin> dom (hv (world s)) \<Longrightarrow>
     fst (lookupByUUID s) = None
     \<and> world (snd (lookupByUUID s)) = world s
     \<and> writes (snd (lookupByUUID s)) = writes s
     \<and> domuuid (snd (lookupByUUID s)) = domuuid s
     \<and> slept (snd (lookupByUUID s)) = slept s
     \<and> state (snd (lookupByUUID s)) = state s"
  by (simp add: lookupByUUID_def lv_log_def Let_def)

lemma receive_round_frame:
  "domuuid s \<notin> dom (hv (world s)) \<Longrightarrow> readdata (state_key s) s = Some ''migrate'' \<Longrightarrow>
     world (receive_round s) = world s
     \<and> writes (receive_round s) = writes s
     \<and> domuuid (receive_round s) = domuuid s
     \<and> slept (receive_round s) = slept s + 1000
     \<and> state (receive_round s) = Some ''migrate''"
proof -
  assume a: "domuuid s \<notin> dom (hv (world s))" and b: "readdata (state_key s) s = Some ''migrate''"
  let ?s1 = "sleep env_idle 1000 s"
  let ?s2 = "?s1\<lparr>state := readdata (state_key ?s1) ?s1\<rparr>"
  have w: "world ?s2 = world s" "domuuid ?s2 = domuuid s" "writes ?s2 = writes s"
     "slept ?s2 = slept s + 1000" "state ?s2 = Some ''migrate''"
    using b by (simp_all add: sleep_def env_idle_def readdata_def state_key_def)
  from a w have "domuuid ?s2 \<notin> dom (hv (world ?s2))" by simp
  from lookupByUUID_absent[OF this] w show ?thesis
    by (simp add: receive_round_def Let_def)
qed

lemma receive_wait_step:
  assumes "domuuid s \<notin> dom (hv (world s))" and "readdata (state_key s) s = Some ''migrate''"
  shows "receive_wait env_idle tick0 s =
           (if tick0 + 1 > 90
            then (Inr True, writedata [(state_key s, ''fail'')] (receive_round s))
            else receive_wait env_idle (tick0 + 1) (receive_round s))"
proof -
  let ?s1 = "sleep env_idle 1000 s"
  let ?s2 = "?s1\<lparr>state := readdata (state_key ?s1) ?s1\<rparr>"
  obtain d s3 where l: "lookupByUUID ?s2 = (d, s3)" by (cases "lookupByUUID ?s2")
  have w: "world ?s2 = world s" "domuuid ?s2 = domuuid s" "state ?s2 = Some ''migrate''"
    using assms by (simp_all add: sleep_def env_idle_def readdata_def state_key_def)
  from assms w have "domuuid ?s2 \<notin> dom (hv (world ?s2))" by simp
  from lookupByUUID_absent[OF this] w l
  have p: "d = None" "state s3 = Some ''migrate''" "domuuid s3 = domuuid s"
    by simp_all
  have r: "receive_round s = s3\<lparr>dom_obj := None\<rparr>"
    using l by (simp add: receive_round_def)
  have k: "state_key (s3\<lparr>dom_obj := None\<rparr>) = state_key s"
    using p by (simp add: state_key_def)
  show ?thesis
    unfolding r
    by (subst receive_wait.simps) (simp add: l p k Let_def)
qed

lemma receive_wait_timeout:
  "domuuid s \<notin> dom (hv (world s)) \<Longrightarrow> readdata (state_key s) s = Some ''migrate'' \<Longrightarrow>
   tick0 \<le> 90 \<Longrightarrow> n = 90 - tick0 \<Longrightarrow>
     (case receive_wait env_idle tick0 s of (r, s') \<Rightarrow>
        r = Inr True
        \<and> writes s' = writes s @ [(state_key s, ''fail'')]
        \<and> store (world s') = (store (world s))(state_key s \<mapsto> ''fail'')
        \<and> slept s' = slept s + 1000 * (91 - tick0))"
proof (induction n arbitrary: tick0 s)
  case 0
  then have t: "tick0 = 90" by simp
  note f = receive_round_frame[OF "0.prems"(1,2)]
  from f have k: "state_key (receive_round s) = state_key s" by (simp add: state_key_def)
  have e: "receive_wait env_idle tick0 s = (Inr True, writedata [(state_key s, ''fail'')] (receive_round s))"
    using receive_wait_step[OF "0.prems"(1,2), of 90] t by simp
  from f k
  show ?case
    unfolding e by (simp add: writedata_single t fun_upd_def)
next
  case (Suc n)
  let ?s' = "receive_round s"
  from Suc.prems have t: "tick0 < 90" by simp
  note f = receive_round_frame[OF Suc.prems(1,2)]
  from f have k: "state_key ?s' = state_key s" by (simp add: state_key_def)
  have 1: "domuuid ?s' \<notin> dom (hv (world ?s'))" using f Suc.prems(1) by simp
  have 2: "readdata (state_key ?s') ?s' = Some ''migrate''"
    using f k Suc.prems(2) by (simp add: readdata_def)
  have 3: "tick0 + 1 \<le> 90" "n = 90 - (tick0 + 1)" using Suc.prems by simp_all
  have e: "receive_wait env_idle tick0 s = receive_wait env_idle (tick0 + 1) ?s'"
    using receive_wait_step[OF Suc.prems(1,2), of tick0] t by simp
  have a: "1000 * (91 - (tick0 + 1)) + 1000 = 1000 * (91 - tick0)" using t by simp
  from Suc.IH[OF 1 2 3] 
  show ?case
    unfolding e using f k a by (simp split: prod.splits)
qed


lemma receive_shutdown_wait_timeout:
  "readdata (state_key s) (sleep E 1000 s) \<noteq> Some ''stop'' \<Longrightarrow>
     new_writes s (receive_shutdown_wait E 120 s)
       = [(state_key s, ''fail''), (failedreason_key s, ''Timeout waiting for migrate or shutdown'')]"
  by (subst receive_shutdown_wait.simps)
     (simp add: Let_def writedata_def new_writes_def sleep_def state_key_def failedreason_key_def
        readdata_def)

text \<open>
  C2. A receive in which the domain never arrives and the state stays \<open>migrate\<close> is
  meant to end in \<open>fail\<close> with \<open>failedreason\<close> set. After 91 rounds of one second the
  first loop writes \<open>fail\<close> to the state key and nothing else: \<open>failedreason\<close> keeps the
  empty value it had. (The timeout of the second loop writes both keys.)
\<close>

theorem receive_migrate_timeout_leaves_failedreason:
  "(case receive_migrate env_idle vm_incoming of (oc, s') \<Rightarrow>
      oc = Returned \<and> slept s' = 91000
      \<and> writes s' = [(''/domains/7e3c/state'', ''fail'')]
      \<and> readdata ''/domains/7e3c/state'' s' = Some ''fail''
      \<and> readdata ''/domains/7e3c/failedreason'' s' = Some [])"
proof -
  let ?s = "vm_incoming\<lparr>inreceive := True\<rparr>"
  have 1: "domuuid ?s \<notin> dom (hv (world ?s))"
    by (simp add: vm_incoming_def vm0_def cluster0_def)
  have 2: "readdata (state_key ?s) ?s = Some ''migrate''"
    by (simp add: vm_incoming_def vm0_def cluster0_def readdata_def zk_read_def state_key_def)
  have 3: "state_key ?s = ''/domains/7e3c/state''" "writes ?s = []" "slept ?s = 0"
    "store (world ?s) ''/domains/7e3c/failedreason'' = Some []"
    by (simp_all add: vm_incoming_def vm0_def cluster0_def state_key_def)
  from receive_wait_timeout[OF 1 2, of 0 90] 3
  show ?thesis
    by (auto simp: receive_migrate_def Let_def readdata_def zk_read_def split: prod.splits)
qed


subsection \<open>Graceful shutdown\<close>

lemma removeDomainFromList_writes:
  "\<exists>ws. writes (removeDomainFromList s) = writes s @ ws \<and> fst ` set ws \<subseteq> {runningdomains_key s}"
  by (simp add: removeDomainFromList_def writedata_def Let_def runningdomains_key_def)

lemma dom_state_frame:
  "domuuid (snd (dom_state s)) = domuuid s
   \<and> writes (snd (dom_state s)) = writes s
   \<and> domain_list (snd (dom_state s)) = domain_list s
   \<and> inrestart (snd (dom_state s)) = inrestart s
   \<and> this_node (snd (dom_state s)) = this_node s
   \<and> slept (snd (dom_state s)) = slept s
   \<and> world (snd (dom_state s)) = world s
   \<and> dom_obj (snd (dom_state s)) = dom_obj s"
  by (simp add: dom_state_def lv_log_def split: option.splits)

lemma vd_shutdown_wait_frame:
  "n = 60 - tick \<Longrightarrow>
     domuuid (snd (vd_shutdown_wait E tick s)) = domuuid s
     \<and> writes (snd (vd_shutdown_wait E tick s)) = writes s
     \<and> domain_list (snd (vd_shutdown_wait E tick s)) = domain_list s
     \<and> inrestart (snd (vd_shutdown_wait E tick s)) = inrestart s
     \<and> this_node (snd (vd_shutdown_wait E tick s)) = this_node s
     \<and> slept s \<le> slept (snd (vd_shutdown_wait E tick s))
     \<and> slept (snd (vd_shutdown_wait E tick s)) \<le> slept s + 500 * (60 - tick)"
proof (induction n arbitrary: tick s)
  case 0
  obtain r s1 where d: "dom_state s = (r, s1)" by (cases "dom_state s")
  from dom_state_frame[of s] d 0 show ?case
    by (subst (1 2 3 4 5 6 7) vd_shutdown_wait.simps) (auto split: sum.splits)
next
  case (Suc n)
  obtain r s1 where d: "dom_state s = (r, s1)" by (cases "dom_state s")
  note f = dom_state_frame[of s, unfolded d, simplified]
  show ?case
  proof (cases r)
    case (Inl e)
    with d f show ?thesis
      by (subst (1 2 3 4 5 6 7) vd_shutdown_wait.simps) simp
  next
    case (Inr st)
    show ?thesis
    proof (cases "st = VIR_DOMAIN_RUNNING \<and> tick < 60")
      case True
      have e: "vd_shutdown_wait E tick s = vd_shutdown_wait E (tick + 1) (sleep E 500 s1)"
        using d Inr True by (subst vd_shutdown_wait.simps) simp
      have n: "n = 60 - (tick + 1)" using Suc.prems by simp
      have a: "500 + 500 * (59 - tick) = 500 * (60 - tick)" using True by arith
      from Suc.IH[OF n, of "sleep E 500 s1"] f True a
      show ?thesis unfolding e by (simp add: sleep_def)
    next
      case False
      with d Inr f show ?thesis
        by (subst (1 2 3 4 5 6 7) vd_shutdown_wait.simps) auto
    qed
  qed
qed


lemma try_dom_state_frame2:
  "domuuid (snd (try_dom_state s)) = domuuid s
   \<and> inrestart (snd (try_dom_state s)) = inrestart s
   \<and> this_node (snd (try_dom_state s)) = this_node s
   \<and> slept (snd (try_dom_state s)) = slept s"
  by (simp add: try_dom_state_def dom_state_def lv_log_def split: option.splits)

lemma removeDomainFromList_frame2:
  "domuuid (removeDomainFromList s) = domuuid s
   \<and> inrestart (removeDomainFromList s) = inrestart s
   \<and> this_node (removeDomainFromList s) = this_node s
   \<and> slept (removeDomainFromList s) = slept s"
  by (simp add: removeDomainFromList_def writedata_def Let_def)

lemma shutdown_wait_props:
  "domuuid (snd (shutdown_wait E tick0 s)) = domuuid s
   \<and> inrestart (snd (shutdown_wait E tick0 s)) = inrestart s
   \<and> slept s \<le> slept (snd (shutdown_wait E tick0 s))
   \<and> slept (snd (shutdown_wait E tick0 s)) \<le> slept s + 2000 * max 1 ((91 - tick0) div 2)
   \<and> (fst (shutdown_wait E tick0 s) \<longrightarrow> writes (snd (shutdown_wait E tick0 s)) = writes s)
   \<and> (\<not> fst (shutdown_wait E tick0 s) \<longrightarrow>
         (\<exists>ws. writes (snd (shutdown_wait E tick0 s)) = writes s @ ws @ [(state_key s, ''stop'')])
         \<and> store (world (snd (shutdown_wait E tick0 s))) (state_key s) = Some ''stop'')"
proof (induction "90 - tick0" arbitrary: tick0 s rule: less_induct)
  case less
  let ?s1 = "sleep E 2000 s"
  have f1: "domuuid ?s1 = domuuid s" "inrestart ?s1 = inrestart s" "slept ?s1 = slept s + 2000"
    "writes ?s1 = writes s" "state_key ?s1 = state_key s"
    by (simp_all add: sleep_def state_key_def)
  show ?case
  proof (cases "readdata (state_key ?s1) ?s1 \<noteq> Some ''shutdown'' \<and> readdata (state_key ?s1) ?s1 \<noteq> Some ''restart''")
    case True
    then have e: "shutdown_wait E tick0 s = (True, ?s1)"
      by (subst shutdown_wait.simps) (simp add: Let_def)
    show ?thesis unfolding e using f1 by simp
  next
    case na: False
    obtain lv s2 where t: "try_dom_state ?s1 = (lv, s2)" by (cases "try_dom_state ?s1")
    from try_dom_state_frame[of ?s1] try_dom_state_frame2[of ?s1] t f1
    have f2: "domuuid s2 = domuuid s" "inrestart s2 = inrestart s" "slept s2 = slept s + 2000"
      "writes s2 = writes s" "world s2 = world ?s1"
      by simp_all
    have k2: "state_key s2 = state_key s" using f2 by (simp add: state_key_def)
    show ?thesis
    proof (cases "lv \<noteq> Some VIR_DOMAIN_RUNNING")
      case True
      let ?s3 = "removeDomainFromList s2"
      have e: "shutdown_wait E tick0 s =
                 (False, (writedata [(state_key ?s3, ''stop'')] ?s3)\<lparr>dom_obj := None, console_log := False\<rparr>)"
        using na t True by (subst shutdown_wait.simps) (auto simp: Let_def)
      from removeDomainFromList_writes[of s2] obtain ws where
        ws: "writes ?s3 = writes s @ ws" using f2 by auto
      have k3: "state_key ?s3 = state_key s"
        using removeDomainFromList_frame2[of s2] f2 by (simp add: state_key_def)
      show ?thesis unfolding e
        using removeDomainFromList_frame2[of s2] f2 ws k3
        by (simp add: writedata_single)
    next
      case run: False
      show ?thesis
      proof (cases "tick0 + 2 \<ge> 90")
        case True
        have e: "shutdown_wait E tick0 s = (False, writedata [(state_key s2, ''stop'')] s2)"
          using na t run True by (subst shutdown_wait.simps) (auto simp: Let_def)
        show ?thesis unfolding e using f2 k2 by (simp add: writedata_single)
      next
        case False
        have e: "shutdown_wait E tick0 s = shutdown_wait E (tick0 + 2) s2"
          using na t run False by (subst shutdown_wait.simps) (auto simp: Let_def)
        have m: "90 - (tick0 + 2) < 90 - tick0" using False by simp
        have q1: "91 - tick0 = (89 - tick0) + 2" using False by simp
        have q2: "(91 - tick0) div 2 = (89 - tick0) div 2 + 1" unfolding q1 by simp
        have q3: "1 \<le> (89 - tick0) div 2" using False by simp
        have b: "slept (snd (shutdown_wait E (tick0 + 2) s2))
                   \<le> slept s + 2000 * max 1 ((91 - tick0) div 2)"
          using less.hyps[OF m, of s2] f2 q2 q3 by (simp add: max_def)
        from less.hyps[OF m, of s2] f2 k2 b
        show ?thesis unfolding e by simp
      qed
    qed
  qed
qed


lemma dom_shutdown_frame:
  "domuuid (snd (dom_shutdown s)) = domuuid s
   \<and> writes (snd (dom_shutdown s)) = writes s
   \<and> inrestart (snd (dom_shutdown s)) = inrestart s
   \<and> slept (snd (dom_shutdown s)) = slept s
   \<and> world (snd (dom_shutdown s)) = world s
   \<and> domain_list (snd (dom_shutdown s)) = domain_list s"
  by (simp add: dom_shutdown_def lv_log_def split: option.splits)

lemma shutdown_waited_bound: "shutdown_waited E s \<le> 90000"
proof -
  let ?s2 = "snd (dom_shutdown (s\<lparr>inshutdown := True\<rparr>))"
  have c: "2000 * max 1 ((91 - 0) div 2) = (90000::nat)" by simp
  have "slept (snd (shutdown_wait E 0 ?s2)) \<le> slept ?s2 + 2000 * max 1 ((91 - 0) div 2)"
    using shutdown_wait_props[of E 0 ?s2] by blast
  then have "slept (snd (shutdown_wait E 0 ?s2)) \<le> slept ?s2 + 90000"
    unfolding c .
  moreover have "slept ?s2 = slept s"
    using dom_shutdown_frame[of "s\<lparr>inshutdown := True\<rparr>"] by simp
  ultimately show ?thesis by (simp add: shutdown_waited_def)
qed

lemma shutdown_vm_stop_written:
  assumes acc: "shutdown_accepted s" and na: "\<not> shutdown_aborted E s"
  shows "fst (shutdown_vm k E s) = Returned
         \<and> (state_key s, ''stop'') \<in> set (new_writes s (snd (shutdown_vm k E s)))"
proof -
  let ?s1 = "s\<lparr>inshutdown := True\<rparr>"
  obtain s2 where d: "dom_shutdown ?s1 = (None, s2)"
    using acc by (cases "dom_shutdown ?s1") (simp add: shutdown_accepted_def)
  obtain ab s3 where w: "shutdown_wait E 0 s2 = (ab, s3)" by (cases "shutdown_wait E 0 s2")
  from na d w have ab: "ab = False" by (simp add: shutdown_aborted_def)
  from dom_shutdown_frame[of ?s1] d
  have f2: "writes s2 = writes s" "domuuid s2 = domuuid s" by simp_all
  have k2: "state_key s2 = state_key s" using f2 by (simp add: state_key_def)
  from shutdown_wait_props[of E 0 s2] w ab f2 k2 obtain ws where
    ws: "writes s3 = writes s @ ws @ [(state_key s, ''stop'')]"
    by auto
  show ?thesis
    using d w ab ws
    by (simp add: shutdown_vm_def Let_def then_do_def new_writes_def writedata_def sleep_def)
qed

lemma vd_shutdown_done_props:
  "fst (vd_shutdown_done s) = Returned
   \<and> domuuid (snd (vd_shutdown_done s)) = domuuid s
   \<and> (\<exists>ws. writes (snd (vd_shutdown_done s)) = writes s @ ws
         \<and> (if inrestart s then state_key s \<notin> fst ` set ws
             else (state_key s, ''stop'') \<in> set ws))
   \<and> (\<not> inrestart s \<longrightarrow> store (world (snd (vd_shutdown_done s))) (state_key s) = Some ''stop'')"
  by (simp add: vd_shutdown_done_def removeDomainFromList_def writedata_def zk_write_def Let_def
        state_key_def runningdomains_key_def)

lemma dom_destroy_frame:
  "domuuid (snd (dom_destroy s)) = domuuid s
   \<and> writes (snd (dom_destroy s)) = writes s
   \<and> inrestart (snd (dom_destroy s)) = inrestart s
   \<and> store (world (snd (dom_destroy s))) = store (world s)
   \<and> domain_list (snd (dom_destroy s)) = domain_list s
   \<and> this_node (snd (dom_destroy s)) = this_node s"
  by (simp add: dom_destroy_def lv_log_def set_hv_def split: option.splits)

lemma vd_stop_vm_props:
  "domuuid (snd (vd_stop_vm s)) = domuuid s
   \<and> inrestart (snd (vd_stop_vm s)) = inrestart s
   \<and> (\<exists>ws. writes (snd (vd_stop_vm s)) = writes s @ ws
         \<and> (if inrestart s then state_key s \<notin> fst ` set ws
             else fst (vd_stop_vm s) = Returned \<longrightarrow> (state_key s, ''stop'') \<in> set ws))
   \<and> (fst (vd_stop_vm s) = Returned \<and> \<not> inrestart s \<longrightarrow>
         store (world (snd (vd_stop_vm s))) (state_key s) = Some ''stop'')"
proof -
  let ?s1 = "s\<lparr>instop := True\<rparr>"
  obtain r s2 where d: "dom_destroy ?s1 = (r, s2)" by (cases "dom_destroy ?s1")
  from dom_destroy_frame[of ?s1] d
  have f: "domuuid s2 = domuuid s" "writes s2 = writes s" "inrestart s2 = inrestart s"
    by simp_all
  show ?thesis
    using d f
    by (simp add: vd_stop_vm_def removeDomainFromList_def writedata_def zk_write_def Let_def
          state_key_def runningdomains_key_def)
qed

lemma vd_shutdown_vm_props:
  assumes acc: "shutdown_accepted s"
  shows "fst (vd_shutdown_vm E s) = Returned
         \<and> domuuid (snd (vd_shutdown_vm E s)) = domuuid s
         \<and> (\<exists>ws. writes (snd (vd_shutdown_vm E s)) = writes s @ ws
               \<and> (if inrestart s then state_key s \<notin> fst ` set ws
                   else (state_key s, ''stop'') \<in> set ws))
         \<and> (\<not> inrestart s \<longrightarrow>
               store (world (snd (vd_shutdown_vm E s))) (state_key s) = Some ''stop'')"
proof -
  let ?s1 = "s\<lparr>inshutdown := True\<rparr>"
  obtain s2 where d: "dom_shutdown ?s1 = (None, s2)"
    using acc by (cases "dom_shutdown ?s1") (simp add: shutdown_accepted_def)
  obtain r s3 where w: "vd_shutdown_wait E 0 s2 = (r, s3)" by (cases "vd_shutdown_wait E 0 s2")
  from dom_shutdown_frame[of ?s1] d
  have f2: "writes s2 = writes s" "domuuid s2 = domuuid s" "inrestart s2 = inrestart s" by simp_all
  from vd_shutdown_wait_frame[of 60 0 E s2] w f2
  have f3: "writes s3 = writes s" "domuuid s3 = domuuid s" "inrestart s3 = inrestart s" by simp_all
  have k3: "state_key s3 = state_key s" using f3 by (simp add: state_key_def)
  note done3 = vd_shutdown_done_props[of s3, unfolded f3 k3]
  show ?thesis
  proof (cases "\<exists>tick. r = Inr tick \<and> tick \<ge> 60")
    case False
    then have e: "vd_shutdown_vm E s = vd_shutdown_done s3"
      using d w by (auto simp: vd_shutdown_vm_def Let_def split: sum.splits)
    show ?thesis unfolding e using done3 by simp
  next
    case True
    then obtain tick where r: "r = Inr tick" "tick \<ge> 60" by auto
    obtain oc s4 where st: "vd_stop_vm s3 = (oc, s4)" by (cases "vd_stop_vm s3")
    have stop3: "domuuid s4 = domuuid s
        \<and> inrestart s4 = inrestart s
        \<and> (\<exists>ws. writes s4 = writes s @ ws
              \<and> (if inrestart s then state_key s \<notin> fst ` set ws
                  else oc = Returned \<longrightarrow> (state_key s, ''stop'') \<in> set ws))
        \<and> (oc = Returned \<and> \<not> inrestart s \<longrightarrow>
              store (world s4) (state_key s) = Some ''stop'')"
      using vd_stop_vm_props[of s3] f3 k3 st by (auto split: if_splits)
    from stop3 have f4: "domuuid s4 = domuuid s" "inrestart s4 = inrestart s" by simp_all
    have k4: "state_key s4 = state_key s" using f4 by (simp add: state_key_def)
    from stop3 obtain ws1 where
      ws1: "writes s4 = writes s @ ws1"
           "if inrestart s then state_key s \<notin> fst ` set ws1
            else oc = Returned \<longrightarrow> (state_key s, ''stop'') \<in> set ws1"
      by blast
    show ?thesis
    proof (cases "oc = Returned")
      case True
      then have e: "vd_shutdown_vm E s = (Returned, s4\<lparr>inshutdown := False\<rparr>)"
        using d w r st by (simp add: vd_shutdown_vm_def Let_def)
      show ?thesis unfolding e using stop3 True by auto
    next
      case False
      then have e: "vd_shutdown_vm E s = vd_shutdown_done s4"
        using d w r st by (cases oc) (simp_all add: vd_shutdown_vm_def Let_def)
      from vd_shutdown_done_props[of s4, unfolded f4 k4] obtain ws2 where
        ws2: "writes (snd (vd_shutdown_done s4)) = writes s4 @ ws2"
             "if inrestart s then state_key s \<notin> fst ` set ws2
              else (state_key s, ''stop'') \<in> set ws2"
        by blast
      have "writes (snd (vd_shutdown_done s4)) = writes s @ (ws1 @ ws2)
            \<and> (if inrestart s then state_key s \<notin> fst ` set (ws1 @ ws2)
                else (state_key s, ''stop'') \<in> set (ws1 @ ws2))"
        using ws1 ws2 by (auto split: if_splits)
      then have "\<exists>ws. writes (snd (vd_shutdown_done s4)) = writes s @ ws
            \<and> (if inrestart s then state_key s \<notin> fst ` set ws
                else (state_key s, ''stop'') \<in> set ws)"
        by blast
      with vd_shutdown_done_props[of s4, unfolded f4 k4]
      show ?thesis unfolding e by simp
    qed
  qed
qed

lemma vd_shutdown_waited_bound: "vd_shutdown_waited E s \<le> 30000"
proof -
  let ?s2 = "snd (dom_shutdown (s\<lparr>inshutdown := True\<rparr>))"
  have "slept (snd (vd_shutdown_wait E 0 ?s2)) \<le> slept ?s2 + 500 * (60 - 0)"
    using vd_shutdown_wait_frame[of 60 0 E ?s2] by simp
  moreover have "slept ?s2 = slept s"
    using dom_shutdown_frame[of "s\<lparr>inshutdown := True\<rparr>"] by simp
  ultimately show ?thesis by (simp add: vd_shutdown_waited_def)
qed

lemma vd_shutdown_vm_stop_recorded:
  assumes acc: "shutdown_accepted s"
  shows "if inrestart s
         then state_key s \<notin> fst ` set (new_writes s (snd (vd_shutdown_vm E s)))
         else (state_key s, ''stop'') \<in> set (new_writes s (snd (vd_shutdown_vm E s)))
              \<and> readdata (state_key s) (snd (vd_shutdown_vm E s)) = Some ''stop''"
proof -
  from vd_shutdown_vm_props[OF acc, of E] obtain ws where
    ws: "writes (snd (vd_shutdown_vm E s)) = writes s @ ws"
        "if inrestart s then state_key s \<notin> fst ` set ws else (state_key s, ''stop'') \<in> set ws"
    by blast
  from ws(1) have n: "new_writes s (snd (vd_shutdown_vm E s)) = ws" by (simp add: new_writes_def)
  from vd_shutdown_vm_props[OF acc, of E] ws(2) show ?thesis
    unfolding n by (simp add: readdata_def zk_read_def)
qed

text \<open>
  C4. In the node daemon a graceful shutdown whose request libvirt accepts waits at
  most 90 seconds (45 rounds of two seconds), and unless the wait is aborted by a
  change of the state key it ends with \<open>stop\<close> written to the state key, whether the
  domain stopped or the time ran out. The older daemon waits at most 30 seconds and
  cannot be aborted; it writes \<open>stop\<close> only outside a restart: when \<open>restart_vm\<close> has
  called it, it leaves the state key alone.
\<close>

theorem shutdown_vm_waits_and_writes_stop:
  "shutdown_accepted s \<Longrightarrow>
     shutdown_waited E s \<le> 90000
     \<and> (\<not> shutdown_aborted E s \<longrightarrow>
           fst (shutdown_vm k E s) = Returned
           \<and> (state_key s, ''stop'') \<in> set (new_writes s (snd (shutdown_vm k E s))))
     \<and> vd_shutdown_waited E s \<le> 30000
     \<and> fst (vd_shutdown_vm E s) = Returned
     \<and> (if inrestart s
         then state_key s \<notin> fst ` set (new_writes s (snd (vd_shutdown_vm E s)))
         else (state_key s, ''stop'') \<in> set (new_writes s (snd (vd_shutdown_vm E s)))
              \<and> readdata (state_key s) (snd (vd_shutdown_vm E s)) = Some ''stop'')"
  using shutdown_waited_bound[of E s] shutdown_vm_stop_written[of s E k]
        vd_shutdown_waited_bound[of E s] vd_shutdown_vm_props[of s E]
        vd_shutdown_vm_stop_recorded[of s E]
  by blast

lemma shutdown_wait_halt:
  "dom_obj s = Some h \<Longrightarrow> hv (world s) h = Some VIR_DOMAIN_RUNNING \<Longrightarrow>
   store (world s) (state_key s) = Some ''shutdown'' \<Longrightarrow>
     fst (shutdown_wait env_halt 0 s) = False"
  by (subst shutdown_wait.simps)
     (simp add: Let_def sleep_def env_halt_def readdata_def zk_read_def state_key_def
        try_dom_state_def dom_state_def split: prod.splits)

theorem shutdown_vm_waits_and_writes_stop_witness:
  "shutdown_accepted vm_stopping
   \<and> shutdown_aborted env_halt vm_stopping = False
   \<and> shutdown_waited env_halt vm_stopping \<le> 90000
   \<and> fst (shutdown_vm (manage_vm_state 0 env_halt) env_halt vm_stopping) = Returned
   \<and> (''/domains/7e3c/state'', ''stop'')
        \<in> set (new_writes vm_stopping (snd (shutdown_vm (manage_vm_state 0 env_halt) env_halt vm_stopping)))
   \<and> fst (vd_shutdown_vm env_halt vm_stopping) = Returned
   \<and> (''/domains/7e3c/state'', ''stop'')
        \<in> set (new_writes vm_stopping (snd (vd_shutdown_vm env_halt vm_stopping)))"
proof -
  let ?s2 = "lv_log (LvShutdown ''7e3c'') (vm_stopping\<lparr>inshutdown := True\<rparr>)"
  have d: "dom_shutdown (vm_stopping\<lparr>inshutdown := True\<rparr>) = (None, ?s2)"
    by (simp add: dom_shutdown_def vm_stopping_def vm_running_def vm0_def cluster0_def active_def)
  have a: "shutdown_accepted vm_stopping"
    using d by (simp add: shutdown_accepted_def)
  have h: "dom_obj ?s2 = Some ''7e3c''" "hv (world ?s2) ''7e3c'' = Some VIR_DOMAIN_RUNNING"
     "store (world ?s2) (state_key ?s2) = Some ''shutdown''"
    by (simp_all add: lv_log_def vm_stopping_def vm_running_def vm0_def cluster0_def state_key_def)
  have b: "shutdown_aborted env_halt vm_stopping = False"
    using shutdown_wait_halt[OF h] d by (simp add: shutdown_aborted_def)
  have c: "inrestart vm_stopping = False" "state_key vm_stopping = ''/domains/7e3c/state''"
    by (simp_all add: vm_stopping_def vm_running_def vm0_def state_key_def)
  show ?thesis
    using a b c
      shutdown_vm_waits_and_writes_stop[OF a, of env_halt "manage_vm_state 0 env_halt"]
    by simp
qed

lemma vd_shutdown_wait_halt:
  "dom_obj s = Some h \<Longrightarrow> hv (world s) h = Some VIR_DOMAIN_RUNNING \<Longrightarrow>
     vd_shutdown_wait env_halt 0 s
       = (Inl (LibvirtError ''Domain not found''),
          lv_log (LvState h) (sleep env_halt 500 (lv_log (LvState h) s)))"
  apply (subst vd_shutdown_wait.simps)
  apply (simp add: dom_state_def)
  apply (subst vd_shutdown_wait.simps)
  apply (simp add: dom_state_def lv_log_def sleep_def env_halt_def)
  done

theorem shutdown_vm_writes_stop_counterexample:
  "shutdown_accepted vm_restarting
   \<and> fst (vd_shutdown_vm env_halt vm_restarting) = Returned
   \<and> vd_shutdown_waited env_halt vm_restarting = 500
   \<and> hv (world (snd (vd_shutdown_vm env_halt vm_restarting))) = Map.empty
   \<and> new_writes vm_restarting (snd (vd_shutdown_vm env_halt vm_restarting))
       = [(''/nodes/hv1/runningdomains'', [])]"
proof -
  let ?s2 = "lv_log (LvShutdown ''7e3c'') (vm_restarting\<lparr>inshutdown := True\<rparr>)"
  have d: "dom_shutdown (vm_restarting\<lparr>inshutdown := True\<rparr>) = (None, ?s2)"
    by (simp add: dom_shutdown_def vm_restarting_def vm_running_def vm0_def cluster0_def active_def)
  have a: "shutdown_accepted vm_restarting"
    using d by (simp add: shutdown_accepted_def)
  have h: "dom_obj ?s2 = Some ''7e3c''" "hv (world ?s2) ''7e3c'' = Some VIR_DOMAIN_RUNNING"
    by (simp_all add: lv_log_def vm_restarting_def vm_running_def vm0_def cluster0_def)
  note w = vd_shutdown_wait_halt[OF h]
  show ?thesis
    using a d w
    by (simp add: vd_shutdown_vm_def vd_shutdown_done_def vd_shutdown_waited_def Let_def
          removeDomainFromList_def writedata_def zk_write_def new_writes_def lv_log_def
          sleep_def env_halt_def runningdomains_key_def
          vm_restarting_def vm_running_def vm0_def cluster0_def)
qed

subsection \<open>Sending a migration\<close>

lemma live_migrate_vm_frame:
  "writes (snd (live_migrate_vm s)) = writes s
   \<and> domain_list (snd (live_migrate_vm s)) = domain_list s
   \<and> domuuid (snd (live_migrate_vm s)) = domuuid s
   \<and> this_node (snd (live_migrate_vm s)) = this_node s
   \<and> store (world (snd (live_migrate_vm s))) = store (world s)"
  by (simp add: live_migrate_vm_def Let_def lv_log_def set_hv_def split: option.splits)

lemma migrate_vm_cases:
  "(case migrate_vm s of (oc, s') \<Rightarrow>
      oc = Returned
      \<and> (live_send_ok s \<longrightarrow>
            domain_list s' = remove1 (domuuid s) (domain_list s)
            \<and> state_key s \<notin> fst ` set (new_writes s s'))
      \<and> (\<not> live_send_ok s \<longrightarrow>
            new_writes s s' = [(state_key s, ''shutdown'')] \<and> domain_list s' = domain_list s))"
proof -
  let ?s1 = "s\<lparr>inmigrate := True\<rparr>"
  obtain b s2 where l: "live_migrate_vm ?s1 = (b, s2)" by (cases "live_migrate_vm ?s1")
  from live_migrate_vm_frame[of ?s1] l
  have f: "writes s2 = writes s" "domain_list s2 = domain_list s" "domuuid s2 = domuuid s"
    "this_node s2 = this_node s"
    by simp_all
  have k: "state_key s2 = state_key s" "runningdomains_key s2 = runningdomains_key s"
    using f by (simp_all add: state_key_def runningdomains_key_def)
  show ?thesis
  proof (cases b)
    case True
    from removeDomainFromList_writes[of s2] obtain ws where
      ws: "writes (removeDomainFromList s2) = writes s @ ws" "fst ` set ws \<subseteq> {runningdomains_key s}"
      using f k by auto
    have nk: "state_key s \<notin> fst ` set ws"
      using ws(2) state_key_not_running[of s s] by auto
    have dl: "domain_list (removeDomainFromList s2) = remove1 (domuuid s) (domain_list s)"
      using f by (simp add: removeDomainFromList_def writedata_def Let_def remove1_idem)
    from True l ws nk dl show ?thesis
      by (simp add: migrate_vm_def live_send_ok_def Let_def new_writes_def)
  next
    case False
    with l f k show ?thesis
      by (simp add: migrate_vm_def live_send_ok_def Let_def new_writes_def writedata_def)
  qed
qed

lemma migrate_vm_no_start:
  "(state_key s, ''start'') \<notin> set (new_writes s (snd (migrate_vm s)))"
  using migrate_vm_cases[of s]
  by (cases "live_send_ok s") (force split: prod.splits)+


lemma vd_live_migrate_vm_frame:
  "writes (snd (vd_live_migrate_vm s)) = writes s
   \<and> domuuid (snd (vd_live_migrate_vm s)) = domuuid s"
  by (simp add: vd_live_migrate_vm_def Let_def lv_log_def set_hv_def split: option.splits)

lemma vd_shutdown_vm_refused:
  "\<not> shutdown_accepted s \<Longrightarrow> \<exists>e. fst (vd_shutdown_vm E s) = Raised e"
  by (cases "dom_shutdown (s\<lparr>inshutdown := True\<rparr>)")
     (auto simp: vd_shutdown_vm_def shutdown_accepted_def Let_def split: option.splits)

lemma vd_migrate_vm_writes_start:
  assumes ret: "fst (vd_migrate_vm E s) = Returned"
  shows "writes (snd (vd_migrate_vm E s)) \<noteq> []
         \<and> last (writes (snd (vd_migrate_vm E s))) = (state_key s, ''start'')"
proof -
  let ?s1 = "s\<lparr>inmigrate := True\<rparr>"
  obtain mr s2 where l: "vd_live_migrate_vm ?s1 = (mr, s2)" by (cases "vd_live_migrate_vm ?s1")
  from vd_live_migrate_vm_frame[of ?s1] l have f2: "domuuid s2 = domuuid s" by simp
  define r where "r = (if mr \<noteq> 0
                  then then_do (vd_shutdown_vm E s2) (\<lambda>s3. (Returned, sleep E 1000 s3))
                  else (Returned, sleep E 1000 (removeDomainFromList s2)))"
  have e: "vd_migrate_vm E s =
             then_do r (\<lambda>s4. (Returned, (writedata [(state_key s4, ''start'')] s4)\<lparr>inmigrate := False\<rparr>))"
    using l by (simp add: vd_migrate_vm_def Let_def r_def)
  obtain oc s4 where r4: "r = (oc, s4)" by (cases r)
  have oc: "oc = Returned"
    using ret unfolding e r4 by (cases oc) (simp_all add: then_do_def)
  have d4: "domuuid s4 = domuuid s"
  proof (cases "mr \<noteq> 0")
    case False
    with r4 f2 show ?thesis
      using removeDomainFromList_frame2[of s2] by (auto simp: r_def sleep_def)
  next
    case True
    show ?thesis
    proof (cases "shutdown_accepted s2")
      case False
      from vd_shutdown_vm_refused[OF this, of E] obtain ex where "fst (vd_shutdown_vm E s2) = Raised ex" ..
      with True r4 oc show ?thesis
        by (cases "vd_shutdown_vm E s2") (simp add: r_def then_do_def)
    next
      case acc: True
      from vd_shutdown_vm_props[OF acc, of E] True r4 f2 show ?thesis
        by (cases "vd_shutdown_vm E s2") (auto simp: r_def then_do_def sleep_def)
    qed
  qed
  have k4: "state_key s4 = state_key s" using d4 by (simp add: state_key_def)
  show ?thesis
    unfolding e r4 oc using k4 by (simp add: then_do_def writedata_def)
qed

lemma dom_state_lvcalls: "\<exists>cs. lvcalls (snd (dom_state s)) = lvcalls s @ cs"
  by (simp add: dom_state_def lv_log_def split: option.splits)

lemma vd_shutdown_wait_lvcalls:
  "n = 60 - tick \<Longrightarrow> \<exists>cs. lvcalls (snd (vd_shutdown_wait E tick s)) = lvcalls s @ cs"
proof (induction n arbitrary: tick s)
  case 0
  obtain r s1 where d: "dom_state s = (r, s1)" by (cases "dom_state s")
  from dom_state_lvcalls[of s] d 0 show ?case
    by (subst vd_shutdown_wait.simps) (auto split: sum.splits)
next
  case (Suc n)
  obtain r s1 where d: "dom_state s = (r, s1)" by (cases "dom_state s")
  from dom_state_lvcalls[of s] d obtain cs1 where c1: "lvcalls s1 = lvcalls s @ cs1" by auto
  show ?case
  proof (cases "\<exists>st. r = Inr st \<and> st = VIR_DOMAIN_RUNNING \<and> tick < 60")
    case True
    then have e: "vd_shutdown_wait E tick s = vd_shutdown_wait E (tick + 1) (sleep E 500 s1)"
      using d by (subst vd_shutdown_wait.simps) auto
    have n: "n = 60 - (tick + 1)" using Suc.prems by simp
    from Suc.IH[OF n, of "sleep E 500 s1"] obtain cs2 where
      "lvcalls (snd (vd_shutdown_wait E (tick + 1) (sleep E 500 s1))) = lvcalls (sleep E 500 s1) @ cs2"
      by auto
    then show ?thesis unfolding e using c1 by (simp add: sleep_def)
  next
    case False
    then have "snd (vd_shutdown_wait E tick s) = s1"
      using d by (subst vd_shutdown_wait.simps) (auto split: sum.splits)
    then show ?thesis using c1 by simp
  qed
qed

lemma vd_shutdown_done_lvcalls: "lvcalls (snd (vd_shutdown_done s)) = lvcalls s"
  by (simp add: vd_shutdown_done_def removeDomainFromList_def writedata_def Let_def)

lemma vd_stop_vm_lvcalls: "\<exists>cs. lvcalls (snd (vd_stop_vm s)) = lvcalls s @ cs"
  by (simp add: vd_stop_vm_def dom_destroy_def removeDomainFromList_def writedata_def Let_def
        lv_log_def set_hv_def split: option.splits)

lemma dom_shutdown_lvcalls:
  "dom_obj s = Some h \<Longrightarrow> lvcalls (snd (dom_shutdown s)) = lvcalls s @ [LvShutdown h]"
  by (simp add: dom_shutdown_def lv_log_def)

lemma vd_shutdown_vm_lvcalls:
  assumes h: "dom_obj s = Some h"
  shows "\<exists>cs. lvcalls (snd (vd_shutdown_vm E s)) = lvcalls s @ LvShutdown h # cs"
proof -
  let ?s1 = "s\<lparr>inshutdown := True\<rparr>"
  obtain r s2 where d: "dom_shutdown ?s1 = (r, s2)" by (cases "dom_shutdown ?s1")
  from dom_shutdown_lvcalls[of ?s1 h] h d
  have c2: "lvcalls s2 = lvcalls s @ [LvShutdown h]" by simp
  show ?thesis
  proof (cases r)
    case (Some e)
    with d c2 show ?thesis by (simp add: vd_shutdown_vm_def Let_def)
  next
    case None
    obtain r3 s3 where w: "vd_shutdown_wait E 0 s2 = (r3, s3)" by (cases "vd_shutdown_wait E 0 s2")
    from vd_shutdown_wait_lvcalls[of 60 0 E s2] w obtain cs3 where
      c3: "lvcalls s3 = lvcalls s @ LvShutdown h # cs3" using c2 by auto
    obtain oc s4 where st: "vd_stop_vm s3 = (oc, s4)" by (cases "vd_stop_vm s3")
    from vd_stop_vm_lvcalls[of s3] st obtain cs4 where
      c4: "lvcalls s4 = lvcalls s @ LvShutdown h # (cs3 @ cs4)" using c3 by auto
    have "snd (vd_shutdown_vm E s) = snd (vd_shutdown_done s3)
          \<or> snd (vd_shutdown_vm E s) = s4\<lparr>inshutdown := False\<rparr>
          \<or> snd (vd_shutdown_vm E s) = snd (vd_shutdown_done s4)"
      using d None w st
      by (cases r3; cases oc) (simp_all add: vd_shutdown_vm_def Let_def)
    then show ?thesis
      using c3 c4 vd_shutdown_done_lvcalls[of s3] vd_shutdown_done_lvcalls[of s4]
      by auto
  qed
qed

lemma vd_live_migrate_vm_frame2:
  "dom_obj (snd (vd_live_migrate_vm s)) = dom_obj s
   \<and> inrestart (snd (vd_live_migrate_vm s)) = inrestart s
   \<and> domain_list (snd (vd_live_migrate_vm s)) = domain_list s
   \<and> (\<exists>cs. lvcalls (snd (vd_live_migrate_vm s)) = lvcalls s @ cs)
   \<and> (fst (vd_live_migrate_vm s) \<noteq> 0 \<longrightarrow> world (snd (vd_live_migrate_vm s)) = world s)"
  by (simp add: vd_live_migrate_vm_def Let_def lv_log_def set_hv_def split: option.splits)

lemma vd_migrate_vm_failure:
  assumes f: "\<not> vd_live_send_ok s" and h: "dom_obj s = Some h"
  shows "LvShutdown h \<in> set (new_lvcalls s (snd (vd_migrate_vm E s)))
         \<and> (active s h \<longrightarrow>
               fst (vd_migrate_vm E s) = Returned
               \<and> (inrestart s = False \<longrightarrow>
                     (state_key s, ''stop'') \<in> set (new_writes s (snd (vd_migrate_vm E s)))))"
proof -
  let ?s1 = "s\<lparr>inmigrate := True\<rparr>"
  obtain mr s2 where l: "vd_live_migrate_vm ?s1 = (mr, s2)" by (cases "vd_live_migrate_vm ?s1")
  from f l have mr: "mr \<noteq> 0" by (simp add: vd_live_send_ok_def)
  from vd_live_migrate_vm_frame2[of ?s1] vd_live_migrate_vm_frame[of ?s1] l mr h
  obtain cs0 where
    f2: "dom_obj s2 = Some h" "inrestart s2 = inrestart s" "world s2 = world s"
        "writes s2 = writes s" "domuuid s2 = domuuid s"
        and c0: "lvcalls s2 = lvcalls s @ cs0"
    by auto
  have k2: "state_key s2 = state_key s" using f2 by (simp add: state_key_def)
  obtain oc s3 where sh: "vd_shutdown_vm E s2 = (oc, s3)" by (cases "vd_shutdown_vm E s2")
  from vd_shutdown_vm_lvcalls[OF f2(1), of E] sh c0 obtain cs where
    c3: "lvcalls s3 = lvcalls s @ cs0 @ LvShutdown h # cs" by auto
  have e: "vd_migrate_vm E s =
             then_do (then_do (oc, s3) (\<lambda>s3. (Returned, sleep E 1000 s3)))
               (\<lambda>s4. (Returned, (writedata [(state_key s4, ''start'')] s4)\<lparr>inmigrate := False\<rparr>))"
    using l mr sh by (simp add: vd_migrate_vm_def Let_def)
  have lv: "lvcalls (snd (vd_migrate_vm E s)) = lvcalls s3"
    unfolding e by (cases oc) (simp_all add: then_do_def sleep_def writedata_def)
  have 1: "LvShutdown h \<in> set (new_lvcalls s (snd (vd_migrate_vm E s)))"
    by (simp add: new_lvcalls_def lv c3)
  have 2: "fst (vd_migrate_vm E s) = Returned
           \<and> (inrestart s = False \<longrightarrow>
                 (state_key s, ''stop'') \<in> set (new_writes s (snd (vd_migrate_vm E s))))"
    if a: "active s h"
  proof -
    have acc: "shutdown_accepted s2"
      using a f2 by (simp add: shutdown_accepted_def dom_shutdown_def active_def)
    from vd_shutdown_vm_props[OF acc, of E] sh f2 k2 obtain ws where
      oc: "oc = Returned" and
      ws: "writes s3 = writes s @ ws"
          "if inrestart s then state_key s \<notin> fst ` set ws else (state_key s, ''stop'') \<in> set ws"
      by auto
    show ?thesis
      unfolding e oc using ws
      by (auto simp: then_do_def sleep_def writedata_def new_writes_def)
  qed
  from 1 2 show ?thesis by blast
qed

lemma vd_migrate_vm_no_handle:
  assumes f: "\<not> vd_live_send_ok s" and h: "dom_obj s = None"
  shows "fst (vd_migrate_vm E s) = Raised AttributeError"
proof -
  let ?s1 = "s\<lparr>inmigrate := True\<rparr>"
  obtain mr s2 where l: "vd_live_migrate_vm ?s1 = (mr, s2)" by (cases "vd_live_migrate_vm ?s1")
  from f l have mr: "mr \<noteq> 0" by (simp add: vd_live_send_ok_def)
  from vd_live_migrate_vm_frame2[of ?s1] l h have d2: "dom_obj s2 = None" by simp
  have "fst (vd_shutdown_vm E s2) = Raised AttributeError"
    using d2 by (simp add: vd_shutdown_vm_def dom_shutdown_def Let_def)
  then show ?thesis
    using l mr by (cases "vd_shutdown_vm E s2") (simp add: vd_migrate_vm_def Let_def then_do_def)
qed

lemma vd_migrate_vm_success:
  assumes ok: "vd_live_send_ok s"
  shows "fst (vd_migrate_vm E s) = Returned
         \<and> domain_list (snd (vd_migrate_vm E s)) = remove1 (domuuid s) (domain_list s)
         \<and> (\<forall>c\<in>set (new_lvcalls s (snd (vd_migrate_vm E s))). \<forall>h. c \<noteq> LvShutdown h)"
proof -
  let ?s1 = "s\<lparr>inmigrate := True\<rparr>"
  obtain mr s2 where l: "vd_live_migrate_vm ?s1 = (mr, s2)" by (cases "vd_live_migrate_vm ?s1")
  from ok l have mr: "mr = 0" by (simp add: vd_live_send_ok_def)
  from vd_live_migrate_vm_frame2[of ?s1] vd_live_migrate_vm_frame[of ?s1] l
  have f2: "domain_list s2 = domain_list s" "domuuid s2 = domuuid s" by simp_all
  have lv: "\<forall>c\<in>set (new_lvcalls s s2). \<forall>h. c \<noteq> LvShutdown h"
    using l by (auto simp: vd_live_migrate_vm_def Let_def lv_log_def set_hv_def new_lvcalls_def
                 split: option.splits if_splits)
  have e: "vd_migrate_vm E s =
             (Returned, (writedata [(state_key (sleep E 1000 (removeDomainFromList s2)), ''start'')]
                           (sleep E 1000 (removeDomainFromList s2)))\<lparr>inmigrate := False\<rparr>)"
    using l mr by (simp add: vd_migrate_vm_def Let_def then_do_def)
  have dl: "domain_list (removeDomainFromList s2) = remove1 (domuuid s) (domain_list s)"
    using f2 by (simp add: removeDomainFromList_def writedata_def Let_def remove1_idem)
  have lv2: "lvcalls (snd (vd_migrate_vm E s)) = lvcalls s2"
    unfolding e by (simp add: sleep_def writedata_def removeDomainFromList_def Let_def)
  show ?thesis
    using dl lv unfolding e
    by (simp add: sleep_def writedata_def new_lvcalls_def removeDomainFromList_def Let_def)
qed

text \<open>
  C3. In the node daemon, \<open>migrate_vm\<close> always returns and never writes \<open>start\<close>:
  when the live migration fails its one write is \<open>shutdown\<close> to the state key and the
  running list stays; when it succeeds the uuid leaves the running list and the state
  key is not written. The older daemon does otherwise. When its live migration
  succeeds it takes the uuid off the running list and asks for no shutdown. When it
  fails the daemon shuts the domain down itself: it calls \<open>shutdown()\<close> on its handle
  (without a handle the call raises), and if libvirt accepts the request the method
  returns with \<open>stop\<close> written to the state key on the way. Whenever the method
  returns, its last write is \<open>start\<close> to the state key.
\<close>

theorem migrate_vm_send:
  "(case migrate_vm s of (oc, s') \<Rightarrow>
      oc = Returned
      \<and> (state_key s, ''start'') \<notin> set (new_writes s s')
      \<and> (live_send_ok s \<longrightarrow>
            domain_list s' = remove1 (domuuid s) (domain_list s)
            \<and> state_key s \<notin> fst ` set (new_writes s s'))
      \<and> (\<not> live_send_ok s \<longrightarrow>
            new_writes s s' = [(state_key s, ''shutdown'')] \<and> domain_list s' = domain_list s))
   \<and> (case vd_migrate_vm E s of (oc, s') \<Rightarrow>
        (oc = Returned \<longrightarrow> writes s' \<noteq> [] \<and> last (writes s') = (state_key s, ''start''))
        \<and> (vd_live_send_ok s \<longrightarrow>
              oc = Returned
              \<and> domain_list s' = remove1 (domuuid s) (domain_list s)
              \<and> (\<forall>c\<in>set (new_lvcalls s s'). \<forall>h. c \<noteq> LvShutdown h))
        \<and> (\<not> vd_live_send_ok s \<longrightarrow>
              (case dom_obj s of
                 None \<Rightarrow> oc = Raised AttributeError
               | Some h \<Rightarrow>
                   LvShutdown h \<in> set (new_lvcalls s s')
                   \<and> (active s h \<longrightarrow>
                         oc = Returned
                         \<and> (inrestart s = False \<longrightarrow>
                               (state_key s, ''stop'') \<in> set (new_writes s s'))))))"
proof -
  have 1: "case migrate_vm s of (oc, s') \<Rightarrow>
      oc = Returned
      \<and> (state_key s, ''start'') \<notin> set (new_writes s s')
      \<and> (live_send_ok s \<longrightarrow>
            domain_list s' = remove1 (domuuid s) (domain_list s)
            \<and> state_key s \<notin> fst ` set (new_writes s s'))
      \<and> (\<not> live_send_ok s \<longrightarrow>
            new_writes s s' = [(state_key s, ''shutdown'')] \<and> domain_list s' = domain_list s)"
    using migrate_vm_cases[of s] migrate_vm_no_start[of s]
    by (auto split: prod.splits)
  have 2: "fst (vd_migrate_vm E s) = Returned \<longrightarrow>
             writes (snd (vd_migrate_vm E s)) \<noteq> []
             \<and> last (writes (snd (vd_migrate_vm E s))) = (state_key s, ''start'')"
    using vd_migrate_vm_writes_start[of E s] by blast
  have 3: "vd_live_send_ok s \<longrightarrow>
             fst (vd_migrate_vm E s) = Returned
             \<and> domain_list (snd (vd_migrate_vm E s)) = remove1 (domuuid s) (domain_list s)
             \<and> (\<forall>c\<in>set (new_lvcalls s (snd (vd_migrate_vm E s))). \<forall>h. c \<noteq> LvShutdown h)"
    using vd_migrate_vm_success[of s E] by blast
  have 4: "\<not> vd_live_send_ok s \<longrightarrow>
             (case dom_obj s of
                None \<Rightarrow> fst (vd_migrate_vm E s) = Raised AttributeError
              | Some h \<Rightarrow>
                  LvShutdown h \<in> set (new_lvcalls s (snd (vd_migrate_vm E s)))
                  \<and> (active s h \<longrightarrow>
                        fst (vd_migrate_vm E s) = Returned
                        \<and> (inrestart s = False \<longrightarrow>
                              (state_key s, ''stop'') \<in> set (new_writes s (snd (vd_migrate_vm E s))))))"
    using vd_migrate_vm_failure[of s _ E] vd_migrate_vm_no_handle[of s E]
    by (cases "dom_obj s") auto
  from 2 3 4
  have 5: "case vd_migrate_vm E s of (oc, s') \<Rightarrow>
        (oc = Returned \<longrightarrow> writes s' \<noteq> [] \<and> last (writes s') = (state_key s, ''start''))
        \<and> (vd_live_send_ok s \<longrightarrow>
              oc = Returned
              \<and> domain_list s' = remove1 (domuuid s) (domain_list s)
              \<and> (\<forall>c\<in>set (new_lvcalls s s'). \<forall>h. c \<noteq> LvShutdown h))
        \<and> (\<not> vd_live_send_ok s \<longrightarrow>
              (case dom_obj s of
                 None \<Rightarrow> oc = Raised AttributeError
               | Some h \<Rightarrow>
                   LvShutdown h \<in> set (new_lvcalls s s')
                   \<and> (active s h \<longrightarrow>
                         oc = Returned
                         \<and> (inrestart s = False \<longrightarrow>
                               (state_key s, ''stop'') \<in> set (new_writes s s')))))"
    by (cases "vd_migrate_vm E s") (auto split: option.splits)
  from 1 5 show ?thesis by blast
qed

lemma vm_leaving_send_ok: "live_send_ok vm_leaving"
  by (simp add: live_send_ok_def live_migrate_vm_def vm_leaving_def vm_running_def vm0_def
        cluster0_def lv_log_def active_def Let_def)

lemma vm_blocked_send_fails: "\<not> live_send_ok vm_blocked"
  by (simp add: live_send_ok_def live_migrate_vm_def vm_blocked_def vm_leaving_def vm_running_def
        vm0_def cluster0_def lv_log_def Let_def)

lemma vm_leaving_vd_send_ok: "vd_live_send_ok vm_leaving"
  by (simp add: vd_live_send_ok_def vd_live_migrate_vm_def vm_leaving_def vm_running_def vm0_def
        cluster0_def lv_log_def active_def Let_def)

lemma vm_blocked_vd_send_fails: "\<not> vd_live_send_ok vm_blocked"
  by (simp add: vd_live_send_ok_def vd_live_migrate_vm_def vm_blocked_def vm_leaving_def
        vm_running_def vm0_def cluster0_def lv_log_def Let_def)

lemma vd_migrate_vm_blocked:
  "fst (vd_migrate_vm env_halt vm_blocked) = Returned
   \<and> new_writes vm_blocked (snd (vd_migrate_vm env_halt vm_blocked))
       = [(''/nodes/hv1/runningdomains'', []), (''/domains/7e3c/state'', ''stop''),
          (''/domains/7e3c/state'', ''start'')]
   \<and> new_lvcalls vm_blocked (snd (vd_migrate_vm env_halt vm_blocked))
       = [LvOpen ''qemu+tcp://hv2/system'', LvShutdown ''7e3c'', LvState ''7e3c'', LvState ''7e3c'']"
proof -
  let ?s1 = "vm_blocked\<lparr>inmigrate := True\<rparr>"
  let ?s2 = "lv_log (LvOpen ''qemu+tcp://hv2/system'') ?s1"
  let ?s3 = "lv_log (LvShutdown ''7e3c'') (?s2\<lparr>inshutdown := True\<rparr>)"
  have l: "vd_live_migrate_vm ?s1 = (1, ?s2)"
    by (simp add: vd_live_migrate_vm_def vm_blocked_def vm_leaving_def vm_running_def vm0_def
          cluster0_def Let_def fmt_def lv_log_def)
  have d: "dom_shutdown (?s2\<lparr>inshutdown := True\<rparr>) = (None, ?s3)"
    by (simp add: dom_shutdown_def lv_log_def active_def vm_blocked_def vm_leaving_def
          vm_running_def vm0_def cluster0_def)
  have h: "dom_obj ?s3 = Some ''7e3c''" "hv (world ?s3) ''7e3c'' = Some VIR_DOMAIN_RUNNING"
    by (simp_all add: lv_log_def vm_blocked_def vm_leaving_def vm_running_def vm0_def cluster0_def)
  note w = vd_shutdown_wait_halt[OF h]
  have sh: "vd_shutdown_vm env_halt ?s2
              = vd_shutdown_done (lv_log (LvState ''7e3c'') (sleep env_halt 500 (lv_log (LvState ''7e3c'') ?s3)))"
    using d w by (simp add: vd_shutdown_vm_def Let_def)
  show ?thesis
    using l sh
    by (simp add: vd_migrate_vm_def vd_shutdown_done_def Let_def then_do_def
          removeDomainFromList_def writedata_def zk_write_def new_writes_def new_lvcalls_def
          lv_log_def sleep_def env_halt_def runningdomains_key_def state_key_def
          vm_blocked_def vm_leaving_def vm_running_def vm0_def cluster0_def)
qed

theorem migrate_vm_send_counterexample:
  "fst (vd_migrate_vm env_idle vm_leaving) = Returned
   \<and> new_writes vm_leaving (snd (vd_migrate_vm env_idle vm_leaving))
       = [(''/nodes/hv1/runningdomains'', []), (''/domains/7e3c/state'', ''start'')]
   \<and> fst (vd_migrate_vm env_halt vm_blocked) = Returned
   \<and> new_writes vm_blocked (snd (vd_migrate_vm env_halt vm_blocked))
       = [(''/nodes/hv1/runningdomains'', []), (''/domains/7e3c/state'', ''stop''),
          (''/domains/7e3c/state'', ''start'')]"
proof -
  have "fst (vd_migrate_vm env_idle vm_leaving) = Returned
   \<and> new_writes vm_leaving (snd (vd_migrate_vm env_idle vm_leaving))
       = [(''/nodes/hv1/runningdomains'', []), (''/domains/7e3c/state'', ''start'')]"
    by (simp add: vd_migrate_vm_def vd_live_migrate_vm_def vm_leaving_def vm_running_def vm0_def
        cluster0_def lv_log_def active_def Let_def set_hv_def then_do_def sleep_def env_idle_def
        removeDomainFromList_def writedata_def zk_write_def runningdomains_key_def state_key_def
        fmt_def new_writes_def)
  with vd_migrate_vm_blocked show ?thesis by simp
qed

theorem migrate_vm_send_witness:
  "live_send_ok vm_leaving
   \<and> live_send_ok vm_blocked = False
   \<and> vd_live_send_ok vm_leaving
   \<and> vd_live_send_ok vm_blocked = False
   \<and> dom_obj vm_blocked = Some ''7e3c'' \<and> active vm_blocked ''7e3c''
   \<and> inrestart vm_blocked = False
   \<and> fst (migrate_vm vm_leaving) = Returned
   \<and> domain_list (snd (migrate_vm vm_leaving)) = []
   \<and> new_writes vm_blocked (snd (migrate_vm vm_blocked)) = [(''/domains/7e3c/state'', ''shutdown'')]
   \<and> fst (vd_migrate_vm env_idle vm_leaving) = Returned
   \<and> domain_list (snd (vd_migrate_vm env_idle vm_leaving)) = []
   \<and> last (writes (snd (vd_migrate_vm env_idle vm_leaving))) = (''/domains/7e3c/state'', ''start'')
   \<and> fst (vd_migrate_vm env_halt vm_blocked) = Returned
   \<and> LvShutdown ''7e3c'' \<in> set (new_lvcalls vm_blocked (snd (vd_migrate_vm env_halt vm_blocked)))
   \<and> (''/domains/7e3c/state'', ''stop'')
        \<in> set (new_writes vm_blocked (snd (vd_migrate_vm env_halt vm_blocked)))
   \<and> last (writes (snd (vd_migrate_vm env_halt vm_blocked))) = (''/domains/7e3c/state'', ''start'')"
proof -
  have c: "remove1 (domuuid vm_leaving) (domain_list vm_leaving) = []"
     "state_key vm_leaving = ''/domains/7e3c/state''"
     "state_key vm_blocked = ''/domains/7e3c/state''"
     "dom_obj vm_blocked = Some ''7e3c''" "active vm_blocked ''7e3c''"
     "inrestart vm_blocked = False"
    by (simp_all add: vm_blocked_def vm_leaving_def vm_running_def vm0_def cluster0_def
          state_key_def active_def)
  show ?thesis
    using c vm_leaving_send_ok vm_blocked_send_fails vm_leaving_vd_send_ok vm_blocked_vd_send_fails
      migrate_vm_send[of vm_leaving env_idle] migrate_vm_send[of vm_blocked env_halt]
    by (auto split: prod.splits)
qed

end
